theory Spec2Isabelle
  imports Complex_Main "HOL-Library.Multiset" "HOL-Library.Monad_Syntax"
begin

section \<open>Sorting routines\<close>

text \<open>
  Python lists of unbounded integers are modelled as \<open>int list\<close>. A routine that sorts
  its argument in place is modelled as the function from the list before the call to the
  list after it, or \<open>None\<close> when the call raises IndexError. The interpreter's
  recursion limit and memory are not modelled.
\<close>

subsection \<open>List reads and writes\<close>

text \<open>
  \<open>xs[i]\<close> and \<open>xs[i] = v\<close> with a non-negative index raise IndexError out of range;
  every index the sorting routines compute is a non-negative integer.
\<close>

definition getitem :: "'a list \<Rightarrow> nat \<Rightarrow> 'a option" where
  "getitem xs i = (if i < length xs then Some (xs ! i) else None)"

definition setitem :: "'a list \<Rightarrow> nat \<Rightarrow> 'a \<Rightarrow> 'a list option" where
  "setitem xs i v = (if i < length xs then Some (xs[i := v]) else None)"

text \<open>
  \<open>for x in range(...)\<close>: the body runs on each value in turn, threading the state; an
  exception raised by the body ends the loop.
\<close>

primrec for_each :: "nat list \<Rightarrow> (nat \<Rightarrow> 's \<Rightarrow> 's option) \<Rightarrow> 's \<Rightarrow> 's option" where
  "for_each [] body s = Some s"
| "for_each (x # xs) body s = do { s' \<leftarrow> body x s; for_each xs body s' }"

subsection \<open>bubble_sort (src/nd.py, src/night.py, src/eye.py)\<close>

text \<open>
  \<^verbatim>\<open>
  def bubble_sort(arr):
      n = len(arr)
      for i in range(n):
          for j in range(0, n - i - 1):
              if arr[j] > arr[j + 1]:
                  arr[j], arr[j + 1] = arr[j + 1], arr[j]
  \<close>
  The three files hold the same text. The tuple on the right of the assignment is
  evaluated first, then the two targets are assigned from left to right. In the loop
  \<open>i < n\<close>, so \<open>n - i - 1\<close> is not negative and the subtraction on naturals is exact.
\<close>

definition compare_swap :: "nat \<Rightarrow> int list \<Rightarrow> int list option" where
  "compare_swap j arr =
     do { a \<leftarrow> getitem arr j;
          b \<leftarrow> getitem arr (j + 1);
          if a > b then
            do { x \<leftarrow> getitem arr (j + 1);
                 y \<leftarrow> getitem arr j;
                 arr1 \<leftarrow> setitem arr j x;
                 setitem arr1 (j + 1) y }
          else Some arr }"

definition bubble_sort :: "int list \<Rightarrow> int list option" where
  "bubble_sort arr =
     (let n = length arr
      in for_each [0..<n] (\<lambda>i. for_each [0..<n - i - 1] compare_swap) arr)"

subsection \<open>bubble_sort (src/shree.py)\<close>

text \<open>
  \<^verbatim>\<open>
  def bubble_sort(arr):
      n = len(arr)
      for i in range(n):
          for j in range(0, n - i - 1):
              if arr[j] > arr[j + 1]:
                  arr[j], arr[j + 1] = arr[j], arr[j]
  \<close>
  Here the right-hand tuple reads \<open>arr[j]\<close> twice.
\<close>

definition compare_swap_shree :: "nat \<Rightarrow> int list \<Rightarrow> int list option" where
  "compare_swap_shree j arr =
     do { a \<leftarrow> getitem arr j;
          b \<leftarrow> getitem arr (j + 1);
          if a > b then
            do { x \<leftarrow> getitem arr j;
                 y \<leftarrow> getitem arr j;
                 arr1 \<leftarrow> setitem arr j x;
                 setitem arr1 (j + 1) y }
          else Some arr }"

definition bubble_sort_shree :: "int list \<Rightarrow> int list option" where
  "bubble_sort_shree arr =
     (let n = length arr
      in for_each [0..<n] (\<lambda>i. for_each [0..<n - i - 1] compare_swap_shree) arr)"

subsection \<open>merge_sort (src/nd.py, src/shree.py, src/eye.py, src/night.py)\<close>

text \<open>
  \<^verbatim>\<open>
  def merge_sort(arr):
      if len(arr) > 1:
          mid = len(arr) // 2
          left_half = arr[:mid]
          right_half = arr[mid:]
          merge_sort(left_half)
          merge_sort(right_half)
          i = j = k = 0
          while i < len(left_half) and j < len(right_half):
              if left_half[i] < right_half[j]:
                  arr[k] = left_half[i]
                  i += 1
              else:
                  arr[k] = right_half[j]
                  j += 1
              k += 1
          while i < len(left_half):
              arr[k] = left_half[i]
              i += 1
              k += 1
          while j < len(right_half):
              arr[k] = right_half[j]
              j += 1
              k += 1
  \<close>
  The slices are copies, which the recursive calls sort in place. The first loop is
  \<open>merge_while\<close>; the second and the third are the same loop on the left and on the right
  half, \<open>copy_rest\<close>. The reads \<open>left_half[i]\<close> and \<open>right_half[j]\<close> are guarded by the loop
  conditions; the writes \<open>arr[k] = ...\<close> are checked.
\<close>

function merge_while ::
  "int list \<Rightarrow> int list \<Rightarrow> int list \<Rightarrow> nat \<Rightarrow> nat \<Rightarrow> nat \<Rightarrow> (int list \<times> nat \<times> nat \<times> nat) option" where
  "merge_while left_half right_half arr i j k =
     (if i < length left_half \<and> j < length right_half then
        (if left_half ! i < right_half ! j then
           do { arr1 \<leftarrow> setitem arr k (left_half ! i);
                merge_while left_half right_half arr1 (i + 1) j (k + 1) }
         else
           do { arr1 \<leftarrow> setitem arr k (right_half ! j);
                merge_while left_half right_half arr1 i (j + 1) (k + 1) })
      else Some (arr, i, j, k))"
  by pat_completeness auto
termination
  by (relation "measure (\<lambda>(l, r, arr, i, j, k). (length l - i) + (length r - j))") auto

function copy_rest :: "int list \<Rightarrow> int list \<Rightarrow> nat \<Rightarrow> nat \<Rightarrow> (int list \<times> nat \<times> nat) option" where
  "copy_rest half arr i k =
     (if i < length half then
        do { arr1 \<leftarrow> setitem arr k (half ! i);
             copy_rest half arr1 (i + 1) (k + 1) }
      else Some (arr, i, k))"
  by pat_completeness auto
termination
  by (relation "measure (\<lambda>(h, arr, i, k). length h - i)") auto

function merge_sort :: "int list \<Rightarrow> int list option" where
  "merge_sort arr =
     (if length arr > 1 then
        do { left_half \<leftarrow> merge_sort (take (length arr div 2) arr);
             right_half \<leftarrow> merge_sort (drop (length arr div 2) arr);
             (arr1, i, j, k) \<leftarrow> merge_while left_half right_half arr 0 0 0;
             (arr2, i2, k2) \<leftarrow> copy_rest left_half arr1 i k;
             (arr3, j3, k3) \<leftarrow> copy_rest right_half arr2 j k2;
             Some arr3 }
      else Some arr)"
  by pat_completeness auto
termination
  by (relation "measure length") auto

declare merge_while.simps [simp del] copy_rest.simps [simp del] merge_sort.simps [simp del]

text \<open>The three loops of the body in sequence, from given counters (used in the proofs).\<close>

definition merge_phase :: "int list \<Rightarrow> int list \<Rightarrow> int list \<Rightarrow> nat \<Rightarrow> nat \<Rightarrow> nat \<Rightarrow> int list option" where
  "merge_phase left_half right_half arr i j k =
     do { (arr1, i1, j1, k1) \<leftarrow> merge_while left_half right_half arr i j k;
          (arr2, i2, k2) \<leftarrow> copy_rest left_half arr1 i1 k1;
          (arr3, j3, k3) \<leftarrow> copy_rest right_half arr2 j1 k2;
          Some arr3 }"

text \<open>The merge of two lists as a recursive function, against which the loops are compared.\<close>

fun merge_lists :: "int list \<Rightarrow> int list \<Rightarrow> int list" where
  "merge_lists [] ys = ys"
| "merge_lists xs [] = xs"
| "merge_lists (x # xs) (y # ys) =
     (if x < y then x # merge_lists xs (y # ys) else y # merge_lists (x # xs) ys)"

subsection \<open>quick_sort (src/nd.py)\<close>

text \<open>
  \<^verbatim>\<open>
  def quick_sort(arr):
      if len(arr) <= 1:
          return arr
      pivot = arr[len(arr) // 2]
      left = [x for x in arr if x < pivot]
      middle = [x for x in arr if x == pivot]
      right = [x for x in arr if x > pivot]
      return quick_sort(left) + middle + quick_sort(right)
  \<close>
  The index \<open>len(arr) // 2\<close> is in range whenever the list has two or more elements, so
  the read of the pivot never raises.
\<close>

function quick_sort :: "int list \<Rightarrow> int list" where
  "quick_sort arr =
     (if length arr \<le> 1 then arr
      else quick_sort (filter (\<lambda>x. x < arr ! (length arr div 2)) arr)
           @ filter (\<lambda>x. x = arr ! (length arr div 2)) arr
           @ quick_sort (filter (\<lambda>x. x > arr ! (length arr div 2)) arr))"
  by pat_completeness auto

termination quick_sort
proof (relation "measure length")
  show "wf (measure length)" by simp
next
  fix arr :: "int list"
  assume big: "\<not> length arr \<le> 1"
  then have "length arr div 2 < length arr" by simp
  then have "arr ! (length arr div 2) \<in> set arr" by (rule nth_mem)
  moreover have "\<not> arr ! (length arr div 2) < arr ! (length arr div 2)" by simp
  ultimately
  have "length (filter (\<lambda>x. x < arr ! (length arr div 2)) arr) < length arr"
    by (rule length_filter_less)
  then show "(filter (\<lambda>x. x < arr ! (length arr div 2)) arr, arr) \<in> measure length"
    by simp
next
  fix arr :: "int list"
  assume big: "\<not> length arr \<le> 1"
  then have "length arr div 2 < length arr" by simp
  then have "arr ! (length arr div 2) \<in> set arr" by (rule nth_mem)
  moreover have "\<not> arr ! (length arr div 2) < arr ! (length arr div 2)" by simp
  ultimately
  have "length (filter (\<lambda>x. arr ! (length arr div 2) < x) arr) < length arr"
    by (rule length_filter_less)
  then show "(filter (\<lambda>x. arr ! (length arr div 2) < x) arr, arr) \<in> measure length"
    by simp
qed

declare quick_sort.simps [simp del]

section \<open>Console scripts\<close>

subsection \<open>Console, exceptions and traces\<close>

text \<open>
  A run of a script is a function of the lines still to be read from standard input. It
  returns the value or the exception of the call, and appends to a trace what the call
  writes and reads: \<open>print(s)\<close> is \<open>Print s\<close>, \<open>input(p)\<close> is \<open>Input p line\<close> (or
  \<open>InputEOF p\<close> when standard input is at its end, where Python raises EOFError), the
  printing of a data frame is \<open>PrintRows\<close>, and a call of a function that runs
  scikit-learn, Matplotlib or PrettyTable code is \<open>Call name args\<close>. A data frame is the
  list of its rows. Characters are the code points below 256.
\<close>

datatype exn = ValueError | EOFError | FileNotFoundError | OtherError string

type_synonym row = string

datatype event =
    Print string
  | Input string string
  | InputEOF string
  | PrintRows "row list"
  | Call string "string list"

record world =
  stdin :: "string list"
  stdout :: "event list"

type_synonym 'a io = "world \<Rightarrow> (exn + 'a) \<times> world"

text \<open>
  What the scripts take from outside the repository is a parameter of every run:
  \<open>builtin_int\<close> is the built-in \<open>int\<close> on a string, with \<open>None\<close> for ValueError, and
  \<open>library_raises\<close> tells, for a library-backed call and the trace before it, which
  exception the call raises, if any. The trace before a call is different at every call
  of a run, so any sequence of outcomes is one such function.
\<close>

record env =
  builtin_int :: "string \<Rightarrow> int option"
  library_raises :: "event list \<Rightarrow> string \<Rightarrow> string list \<Rightarrow> exn option"

definition emit :: "event \<Rightarrow> world \<Rightarrow> world" where
  "emit e w = w\<lparr>stdout := stdout w @ [e]\<rparr>"

definition io_return :: "'a \<Rightarrow> 'a io" where
  "io_return x = (\<lambda>w. (Inr x, w))"

definition io_raise :: "exn \<Rightarrow> 'a io" where
  "io_raise e = (\<lambda>w. (Inl e, w))"

definition io_bind :: "'a io \<Rightarrow> ('a \<Rightarrow> 'b io) \<Rightarrow> 'b io" where
  "io_bind m f = (\<lambda>w. case m w of (Inl e, w') \<Rightarrow> (Inl e, w') | (Inr x, w') \<Rightarrow> f x w')"

definition io_seq :: "'a io \<Rightarrow> 'b io \<Rightarrow> 'b io" where
  "io_seq m n = io_bind m (\<lambda>_. n)"

definition py_print :: "string \<Rightarrow> unit io" where
  "py_print s = (\<lambda>w. (Inr (), emit (Print s) w))"

primrec prints :: "string list \<Rightarrow> unit io" where
  "prints [] = io_return ()"
| "prints (s # ss) = io_seq (py_print s) (prints ss)"

definition py_input :: "string \<Rightarrow> string io" where
  "py_input prompt =
     (\<lambda>w. case stdin w of
            [] \<Rightarrow> (Inl EOFError, emit (InputEOF prompt) w)
          | l # ls \<Rightarrow> (Inr l, emit (Input prompt l) (w\<lparr>stdin := ls\<rparr>)))"

definition call :: "env \<Rightarrow> string \<Rightarrow> string list \<Rightarrow> unit io" where
  "call env name args =
     (\<lambda>w. case library_raises env (stdout w) name args of
            None \<Rightarrow> (Inr (), emit (Call name args) w)
          | Some e \<Rightarrow> (Inl e, emit (Call name args) w))"

subsection \<open>Numeric parses\<close>

definition int_of_input :: "env \<Rightarrow> string \<Rightarrow> int io" where
  "int_of_input env s =
     (case builtin_int env s of None \<Rightarrow> io_raise ValueError | Some n \<Rightarrow> io_return n)"

text \<open>\<open>try: body except cls: handler\<close>; any other exception passes through.\<close>

definition try_except :: "'a io \<Rightarrow> exn \<Rightarrow> 'a io \<Rightarrow> 'a io" where
  "try_except body cls handler =
     (\<lambda>w. case body w of
            (Inl e, w') \<Rightarrow> if e = cls then handler w' else (Inl e, w')
          | (Inr x, w') \<Rightarrow> (Inr x, w'))"

text \<open>What one pass through the body of a \<open>while True\<close> loop asks of the loop.\<close>

datatype ctl = Continue | Break

primrec io_for :: "'a list \<Rightarrow> ('a \<Rightarrow> unit io) \<Rightarrow> unit io" where
  "io_for [] body = io_return ()"
| "io_for (x # xs) body = io_seq (body x) (io_for xs body)"

subsection \<open>The menu of src/shree.py\<close>

text \<open>
  \<^verbatim>\<open>
  def menu():
      while True:
          print("\n1. Run Sorting Analysis")
          print("2. Show Comparison Charts")
          print("3. Exit")
          choice = input("Enter your choice: ")
          if choice == '1':
              run_analysis()
          elif choice == '2':
              chart_menu()
          elif choice == '3':
              break
          else:
              print("Invalid choice. Please try again.")

  def chart_menu():
      input_types = ['random', 'sorted', 'reverse_sorted']
      for input_type in input_types:
          show_chart = input(f"Do you want to see the chart for {input_type} input? (y/n): ")
          if show_chart.lower() == 'y':
              show_chart_for_type(input_type)
  \<close>
  \<open>run_analysis\<close> times the sorting routines and prints a table with PrettyTable, and
  \<open>show_chart_for_type\<close> draws a plot with Matplotlib; neither reads input, and each is
  one \<open>Call\<close> event, which returns or raises as \<open>library_raises\<close> tells. The loop may
  run for ever on an endless input, so it is a partial function: \<open>None\<close> is a run that
  does not end.
\<close>

definition lower_char :: "char \<Rightarrow> char" where
  "lower_char c =
     (let n = (of_char c :: nat) in if 65 \<le> n \<and> n \<le> 90 then char_of (n + 32) else c)"

definition py_lower :: "string \<Rightarrow> string" where
  "py_lower s = map lower_char s"

definition run_analysis :: "env \<Rightarrow> unit io" where
  "run_analysis env = call env ''run_analysis'' []"

definition show_chart_for_type :: "env \<Rightarrow> string \<Rightarrow> unit io" where
  "show_chart_for_type env input_type = call env ''show_chart_for_type'' [input_type]"

definition chart_menu :: "env \<Rightarrow> unit io" where
  "chart_menu env =
     io_for [''random'', ''sorted'', ''reverse_sorted'']
       (\<lambda>input_type.
          io_bind (py_input (''Do you want to see the chart for '' @ input_type
                              @ '' input? (y/n): ''))
            (\<lambda>show_chart.
               if py_lower show_chart = ''y'' then show_chart_for_type env input_type
               else io_return ()))"

definition shree_menu_body :: "env \<Rightarrow> ctl io" where
  "shree_menu_body env =
     io_seq (prints [CHR 0x0A # ''1. Run Sorting Analysis'',
                     ''2. Show Comparison Charts'',
                     ''3. Exit''])
       (io_bind (py_input ''Enter your choice: '')
          (\<lambda>choice.
             if choice = ''1'' then io_seq (run_analysis env) (io_return Continue)
             else if choice = ''2'' then io_seq (chart_menu env) (io_return Continue)
             else if choice = ''3'' then io_return Break
             else io_seq (py_print ''Invalid choice. Please try again.'')
                    (io_return Continue)))"

partial_function (option) shree_menu :: "env \<Rightarrow> world \<Rightarrow> ((exn + unit) \<times> world) option" where
  "shree_menu env w =
     (case shree_menu_body env w of
        (Inl e, w') \<Rightarrow> Some (Inl e, w')
      | (Inr Break, w') \<Rightarrow> Some (Inr (), w')
      | (Inr Continue, w') \<Rightarrow> shree_menu env w')"

subsection \<open>Data frames\<close>

text \<open>
  \<open>DataFrame.head(n)\<close> of pandas returns the first \<open>n\<close> rows and, for negative \<open>n\<close>, all
  rows except the last \<open>|n|\<close> (the slice \<open>[:n]\<close>). Printing a frame is the event
  \<open>PrintRows\<close> of its rows; how pandas abridges the text of a long frame is not modelled.
\<close>

definition head :: "row list \<Rightarrow> int \<Rightarrow> row list" where
  "head data n =
     (if 0 \<le> n then take (nat n) data else take (nat (int (length data) + n)) data)"

definition print_rows :: "row list \<Rightarrow> unit io" where
  "print_rows rows = (\<lambda>w. (Inr (), emit (PrintRows rows) w))"

subsection \<open>display_data and the menu loop of src/analyiz.py\<close>

text \<open>
  \<^verbatim>\<open>
  def display_data(data):
      num_rows = int(input("How many rows of data do you wish to print? "))
      print(data.head(num_rows))
  \<close>
  The loop of \<open>menu\<close>, lines 186 to 231 of src/analyiz.py, compares the line read with
  the strings \<open>'1'\<close> to \<open>'5'\<close>. The functions it dispatches to other than
  \<open>display_data\<close> (\<open>linear_regression\<close>, \<open>knn\<close>, \<open>kmeans_clustering\<close>,
  \<open>compare_two_algorithms\<close>, \<open>compare_all_algorithms\<close>) fit and plot with scikit-learn
  and Matplotlib and read no input: each is one \<open>Call\<close> event, which returns or raises
  as \<open>library_raises\<close> tells.
\<close>

definition analyiz_display_data :: "env \<Rightarrow> row list \<Rightarrow> unit io" where
  "analyiz_display_data env data =
     io_bind (py_input ''How many rows of data do you wish to print? '')
       (\<lambda>line. io_bind (int_of_input env line)
          (\<lambda>num_rows. print_rows (head data num_rows)))"

text \<open>
  \<^verbatim>\<open>
      def display_data():
          rows_to_display = int(input("How many rows of data would you like to print? "))
          print(data.head(rows_to_display))
  \<close>
  of src/4.py, over the frame \<open>data\<close> of the enclosing module; the menu that calls it is
  defined there but never called.
\<close>

definition py4_display_data :: "env \<Rightarrow> row list \<Rightarrow> unit io" where
  "py4_display_data env data =
     io_bind (py_input ''How many rows of data would you like to print? '')
       (\<lambda>line. io_bind (int_of_input env line)
          (\<lambda>rows_to_display. print_rows (head data rows_to_display)))"

text \<open>The branches of the choices \<open>'2'\<close> and \<open>'3'\<close>, written in the body of the loop.\<close>

definition analyiz_choose_algorithm :: "env \<Rightarrow> unit io" where
  "analyiz_choose_algorithm env =
     io_seq (prints [''Choose an algorithm:'', ''1. Linear Regression'', ''2. KNN'',
                     ''3. K-Means Clustering''])
       (io_bind (py_input ''Choose an algorithm: '')
          (\<lambda>algo_choice.
             if algo_choice = ''1'' then call env ''linear_regression'' []
             else if algo_choice = ''2'' then call env ''knn'' []
             else if algo_choice = ''3'' then call env ''kmeans_clustering'' []
             else py_print ''Invalid choice.''))"

definition analyiz_compare_two :: "env \<Rightarrow> unit io" where
  "analyiz_compare_two env =
     io_seq (prints [''Choose first algorithm:'', ''1. Linear Regression'', ''2. KNN''])
       (io_bind (py_input ''Choose first algorithm: '')
          (\<lambda>algo1_choice.
             io_seq (prints [''Choose second algorithm:'', ''1. Linear Regression'',
                             ''2. KNN''])
               (io_bind (py_input ''Choose second algorithm: '')
                  (\<lambda>algo2_choice.
                     call env ''compare_two_algorithms''
                       [if algo1_choice = ''1'' then ''Linear Regression'' else ''KNN'',
                        if algo2_choice = ''1'' then ''Linear Regression'' else ''KNN'']))))"

definition analyiz_menu_body :: "env \<Rightarrow> row list \<Rightarrow> ctl io" where
  "analyiz_menu_body env data =
     io_seq (prints [CHR 0x0A # ''Main Menu:'', ''1. Display data'', ''2. Choose algorithm'',
                     ''3. Compare two algorithms'', ''4. Compare all algorithms'',
                     ''5. Exit''])
       (io_bind (py_input ''Enter your choice: '')
          (\<lambda>choice.
             if choice = ''1'' then io_seq (analyiz_display_data env data) (io_return Continue)
             else if choice = ''2'' then io_seq (analyiz_choose_algorithm env) (io_return Continue)
             else if choice = ''3'' then io_seq (analyiz_compare_two env) (io_return Continue)
             else if choice = ''4'' then
               io_seq (call env ''compare_all_algorithms'' []) (io_return Continue)
             else if choice = ''5'' then io_return Break
             else io_seq (py_print ''Invalid choice.'') (io_return Continue)))"

partial_function (option) analyiz_menu :: "env \<Rightarrow> row list \<Rightarrow> world \<Rightarrow> ((exn + unit) \<times> world) option" where
  "analyiz_menu env data w =
     (case analyiz_menu_body env data w of
        (Inl e, w') \<Rightarrow> Some (Inl e, w')
      | (Inr Break, w') \<Rightarrow> Some (Inr (), w')
      | (Inr Continue, w') \<Rightarrow> analyiz_menu env data w')"

subsection \<open>display_data and the menu loop of src/ml_procedural.py\<close>

text \<open>
  \<^verbatim>\<open>
  def display_data(data):
      try:
          num_rows = int(input("How many rows would you like to print? (up to 200): "))
          if num_rows > 200:
              num_rows = 200
          print(data.head(num_rows))
      except ValueError:
          print("Please enter a valid number.")
  \<close>
  The loop of \<open>menu\<close>, lines 160 to 193, converts the line read with \<open>int\<close> outside any
  \<open>try\<close>, as \<open>compare_two_algorithms\<close> does with its two lines.
\<close>

definition ml_display_data :: "env \<Rightarrow> row list \<Rightarrow> unit io" where
  "ml_display_data env data =
     try_except
       (io_bind (py_input ''How many rows would you like to print? (up to 200): '')
          (\<lambda>line. io_bind (int_of_input env line)
             (\<lambda>num_rows. print_rows (head data (if num_rows > 200 then 200 else num_rows)))))
       ValueError
       (py_print ''Please enter a valid number.'')"

definition ml_run_algorithm :: "env \<Rightarrow> int \<Rightarrow> unit io" where
  "ml_run_algorithm env algo =
     (if algo = 1 then call env ''linear_regression'' []
      else if algo = 2 then call env ''knn'' []
      else io_return ())"

definition ml_compare_two_algorithms :: "env \<Rightarrow> unit io" where
  "ml_compare_two_algorithms env =
     io_seq (py_print (''1. Linear Regression'' @ CHR 0x0A # ''2. KNN''))
       (io_bind (py_input ''Choose the first algorithm to compare: '')
          (\<lambda>line1. io_bind (int_of_input env line1)
             (\<lambda>algo1.
                io_bind (py_input ''Choose the second algorithm to compare: '')
                  (\<lambda>line2. io_bind (int_of_input env line2)
                     (\<lambda>algo2. io_seq (ml_run_algorithm env algo1) (ml_run_algorithm env algo2))))))"

definition ml_compare_all_algorithms :: "env \<Rightarrow> unit io" where
  "ml_compare_all_algorithms env =
     io_seq (py_print ''Comparing all algorithms...'')
       (io_seq (call env ''linear_regression'' [])
          (io_seq (call env ''knn'' []) (call env ''kmeans_regression'' [])))"

text \<open>The branch of the choice 2, written in the body of the loop.\<close>

definition ml_choose_algorithm :: "env \<Rightarrow> unit io" where
  "ml_choose_algorithm env =
     io_seq (py_print (''1. Linear Regression'' @ CHR 0x0A # ''2. KNN''
                        @ CHR 0x0A # ''3. K-Means Regression''))
       (io_bind (py_input ''Choose an algorithm: '')
          (\<lambda>line. io_bind (int_of_input env line)
             (\<lambda>algo_choice.
                if algo_choice = 1 then call env ''linear_regression'' []
                else if algo_choice = 2 then call env ''knn'' []
                else if algo_choice = 3 then call env ''kmeans_regression'' []
                else io_return ())))"

definition ml_menu_body :: "env \<Rightarrow> row list \<Rightarrow> ctl io" where
  "ml_menu_body env data =
     io_seq (prints [CHR 0x0A # ''Main Menu:'', ''1. Display data'', ''2. Choose algorithm'',
                     ''3. Compare two algorithms'', ''4. Compare all algorithms'',
                     ''5. Exit''])
       (io_bind (py_input ''Enter your choice: '')
          (\<lambda>line. io_bind (int_of_input env line)
             (\<lambda>choice.
                if choice = 1 then io_seq (ml_display_data env data) (io_return Continue)
                else if choice = 2 then io_seq (ml_choose_algorithm env) (io_return Continue)
                else if choice = 3 then io_seq (ml_compare_two_algorithms env) (io_return Continue)
                else if choice = 4 then io_seq (ml_compare_all_algorithms env) (io_return Continue)
                else if choice = 5 then io_seq (py_print ''Exiting program.'') (io_return Break)
                else io_seq (py_print ''Invalid choice. Please try again.'')
                       (io_return Continue))))"

partial_function (option) ml_menu :: "env \<Rightarrow> row list \<Rightarrow> world \<Rightarrow> ((exn + unit) \<times> world) option" where
  "ml_menu env data w =
     (case ml_menu_body env data w of
        (Inl e, w') \<Rightarrow> Some (Inl e, w')
      | (Inr Break, w') \<Rightarrow> Some (Inr (), w')
      | (Inr Continue, w') \<Rightarrow> ml_menu env data w')"

declare shree_menu.simps [code] analyiz_menu.simps [code] ml_menu.simps [code]

definition console :: "string list \<Rightarrow> world" where
  "console lines = \<lparr>stdin = lines, stdout = []\<rparr>"

subsection \<open>An environment for the examples\<close>

text \<open>
  \<open>py_int\<close> follows \<open>int(s)\<close> of CPython 3.11 on a string of code points below 256, with
  the default limit of 4300 digits: the no-break space and the next-line character count
  as spaces, the whitespace dropped at both ends is the space and the characters 9 to 13,
  one sign is allowed, and the digits may be separated by single underscores. Anything
  else raises ValueError. It is used in the examples only; the statements hold for every
  \<open>builtin_int\<close>.
\<close>

definition unicode_space_to_ascii :: "char \<Rightarrow> char" where
  "unicode_space_to_ascii c = (if c = CHR 0x85 \<or> c = CHR 0xA0 then CHR 0x20 else c)"

definition is_space :: "char \<Rightarrow> bool" where
  "is_space c = (c \<in> set [CHR 0x20, CHR 0x09, CHR 0x0A, CHR 0x0B, CHR 0x0C, CHR 0x0D])"

definition strip :: "string \<Rightarrow> string" where
  "strip s = rev (dropWhile is_space (rev (dropWhile is_space s)))"

definition is_digit :: "char \<Rightarrow> bool" where
  "is_digit c = (c \<in> set ''0123456789'')"

fun digits_ok :: "string \<Rightarrow> bool" where
  "digits_ok [] = False"
| "digits_ok [c] = is_digit c"
| "digits_ok (c # d # cs) =
     (is_digit c \<and> (if d = CHR ''_'' then digits_ok cs else digits_ok (d # cs)))"

definition digits_value :: "string \<Rightarrow> int" where
  "digits_value ds =
     foldl (\<lambda>acc c. 10 * acc + (int (of_char c) - 48)) 0 (filter (\<lambda>c. c \<noteq> CHR ''_'') ds)"

definition digits_int :: "string \<Rightarrow> int option" where
  "digits_int ds =
     (if digits_ok ds \<and> length (filter (\<lambda>c. c \<noteq> CHR ''_'') ds) \<le> 4300
      then Some (digits_value ds) else None)"

definition py_int :: "string \<Rightarrow> int option" where
  "py_int s =
     (case strip (map unicode_space_to_ascii s) of
        [] \<Rightarrow> None
      | c # cs \<Rightarrow>
          if c = CHR ''-'' then map_option uminus (digits_int cs)
          else if c = CHR ''+'' then digits_int cs
          else digits_int (c # cs))"

text \<open>An environment in which every library-backed call returns.\<close>

definition sample_env :: env where
  "sample_env = \<lparr>builtin_int = py_int, library_raises = (\<lambda>before name args. None)\<rparr>"

text \<open>
  An environment in which \<open>compare_all_algorithms\<close> raises ValueError, as its nearest
  neighbours classifier does on a frame with fewer than five training rows.
\<close>

definition small_frame_env :: env where
  "small_frame_env =
     \<lparr>builtin_int = py_int,
      library_raises =
        (\<lambda>before name args. if name = ''compare_all_algorithms'' then Some ValueError else None)\<rparr>"

text \<open>A frame of ten rows, and one of 202 rows.\<close>

definition frame10 :: "row list" where
  "frame10 = [''row 0'', ''row 1'', ''row 2'', ''row 3'', ''row 4'', ''row 5'', ''row 6'',
              ''row 7'', ''row 8'', ''row 9'']"

definition frame202 :: "row list" where
  "frame202 = replicate 202 ''row''"

text \<open>
  Consoles met in the statements: after a line was read at a prompt; after a menu was
  displayed and the choice read; after a menu was displayed and the input had ended.
\<close>

definition after_input :: "string \<Rightarrow> string \<Rightarrow> string list \<Rightarrow> world \<Rightarrow> world" where
  "after_input prompt line rest w = w\<lparr>stdin := rest, stdout := stdout w @ [Input prompt line]\<rparr>"

definition shree_display :: "event list" where
  "shree_display =
     [Print (CHR 0x0A # ''1. Run Sorting Analysis''), Print ''2. Show Comparison Charts'',
      Print ''3. Exit'']"

definition main_menu_display :: "event list" where
  "main_menu_display =
     [Print (CHR 0x0A # ''Main Menu:''), Print ''1. Display data'', Print ''2. Choose algorithm'',
      Print ''3. Compare two algorithms'', Print ''4. Compare all algorithms'',
      Print ''5. Exit'']"

definition menu_read :: "event list \<Rightarrow> string \<Rightarrow> string list \<Rightarrow> world \<Rightarrow> world" where
  "menu_read display choice rest w =
     w\<lparr>stdin := rest, stdout := stdout w @ display @ [Input ''Enter your choice: '' choice]\<rparr>"

definition menu_eof :: "event list \<Rightarrow> world \<Rightarrow> world" where
  "menu_eof display w =
     w\<lparr>stdout := stdout w @ display @ [InputEOF ''Enter your choice: '']\<rparr>"

text \<open>
  The last event of the console is a library-backed call, which raised \<open>e\<close>.
\<close>

definition library_raised :: "env \<Rightarrow> exn \<Rightarrow> world \<Rightarrow> bool" where
  "library_raised env e w =
     (case rev (stdout w) of
        Call name args # before \<Rightarrow> library_raises env (rev before) name args = Some e
      | _ \<Rightarrow> False)"

text \<open>A branch of a menu followed by the next pass of the loop.\<close>

definition and_then :: "(exn + unit) \<times> world \<Rightarrow> (exn + ctl) \<times> world" where
  "and_then res = (case res of (Inl e, w') \<Rightarrow> (Inl e, w') | (Inr u, w') \<Rightarrow> (Inr Continue, w'))"

subsection \<open>load_data (src/analyiz.py, src/ml_procedural.py)\<close>

text \<open>
  \<^verbatim>\<open>
  def load_data(file_path):
      try:
          data = pd.read_csv(file_path)
          print("File loaded successfully.")
          return data
      except FileNotFoundError:
          print(f"Error: The file '{file_path}' does not exist.")
          return None
  \<close>
  \<open>pandas.read_csv\<close> and the file system are a parameter \<open>read_csv\<close>, which gives the
  frame or the exception raised for a path. In src/ml_procedural.py the function takes
  no argument: it first chooses between \<open>data.csv\<close> in the working directory (the
  parameter \<open>cwd_data_csv\<close>, tested with \<open>os.path.exists\<close>, the parameter \<open>path_exists\<close>)
  and a fixed path, printing a notice in the second case, then runs the same \<open>try\<close>.
\<close>

definition io_lift :: "exn + 'a \<Rightarrow> 'a io" where
  "io_lift r = (\<lambda>w. (r, w))"

definition not_exist_message :: "string \<Rightarrow> string" where
  "not_exist_message file_path =
     ''Error: The file '' @ CHR 0x27 # file_path @ CHR 0x27 # '' does not exist.''"

definition analyiz_load_data ::
  "(string \<Rightarrow> exn + row list) \<Rightarrow> string \<Rightarrow> (row list option) io" where
  "analyiz_load_data read_csv file_path =
     try_except
       (io_bind (io_lift (read_csv file_path))
          (\<lambda>data. io_seq (py_print ''File loaded successfully.'') (io_return (Some data))))
       FileNotFoundError
       (io_seq (py_print (not_exist_message file_path)) (io_return None))"

definition ml_fallback_path :: string where
  "ml_fallback_path =
     ''D:'' @ CHR 0x5C # ''AURO'' @ CHR 0x5C # ''AURO workplace'' @ CHR 0x5C # ''VS Code''
     @ CHR 0x5C # ''Python'' @ CHR 0x5C # ''Sem 3'' @ CHR 0x5C # ''DataSet Analysis''
     @ CHR 0x5C # ''data.csv''"

definition ml_file_path :: "(string \<Rightarrow> bool) \<Rightarrow> string \<Rightarrow> string" where
  "ml_file_path path_exists cwd_data_csv =
     (if \<not> path_exists cwd_data_csv then ml_fallback_path else cwd_data_csv)"

definition ml_load_data ::
  "(string \<Rightarrow> exn + row list) \<Rightarrow> (string \<Rightarrow> bool) \<Rightarrow> string \<Rightarrow> (row list option) io" where
  "ml_load_data read_csv path_exists cwd_data_csv =
     io_seq
       (if \<not> path_exists cwd_data_csv then
          py_print (''File '' @ CHR 0x27 # ''data.csv'' @ CHR 0x27
                     # '' not found in current directory, trying full path...'')
        else io_return ())
       (try_except
          (io_bind (io_lift (read_csv (ml_file_path path_exists cwd_data_csv)))
             (\<lambda>data. io_seq (py_print ''File loaded successfully.'') (io_return (Some data))))
          FileNotFoundError
          (io_seq (py_print (not_exist_message (ml_file_path path_exists cwd_data_csv)))
             (io_return None)))"

text \<open>The console after the notice that \<open>load_data\<close> of src/ml_procedural.py may print.\<close>

definition ml_notice :: "(string \<Rightarrow> bool) \<Rightarrow> string \<Rightarrow> world \<Rightarrow> world" where
  "ml_notice path_exists cwd_data_csv w =
     (if \<not> path_exists cwd_data_csv
      then emit (Print (''File '' @ CHR 0x27 # ''data.csv'' @ CHR 0x27
                     # '' not found in current directory, trying full path...'')) w
      else w)"

text \<open>A file system with one readable file, one unreadable file and nothing else.\<close>

definition sample_read_csv :: "string \<Rightarrow> exn + row list" where
  "sample_read_csv p =
     (if p = ''data.csv'' then Inr [''1,2'', ''3,4'']
      else if p = ''locked.csv'' then Inl (OtherError ''PermissionError'')
      else Inl FileNotFoundError)"

section \<open>The key logger (src/game_key_logger.py)\<close>

text \<open>
  \<^verbatim>\<open>
  def on_press(key):
      try:
          key_data = key.char  # For alphabetic characters
      except AttributeError:
          key_data = str(key)  # For special keys
      timestamp = datetime.now().strftime('%Y-%m-%d %H:%M:%S')
      log_entry = f"[{timestamp}] Key Pressed: {key_data}"
      print(log_entry)
      with open(LOG_FILE, "a") as f:
          f.write(log_entry + "\n")

  def on_release(key):
      if key == keyboard.Key.esc:
          print("\n[Logger Stopped]")
          return False

  with keyboard.Listener(on_press=on_press, on_release=on_release) as listener:
      listener.join()
  \<close>
  A key is a \<open>KeyCode\<close>, whose \<open>char\<close> is a character or \<open>None\<close>, or a member \<open>Key.name\<close>
  of the enumeration of special keys, which has no \<open>char\<close>. A callback that ends without
  \<open>return\<close> gives \<open>None\<close>. The listener of pynput calls the callbacks on each event in
  turn and stops when one of them returns \<open>False\<close>; \<open>listener evs st\<close> gives whether
  it has stopped after the events \<open>evs\<close>, and the state then. The clock is part of the
  event; appending to the log file is taken to succeed.
\<close>

datatype key = KeyCode "string option" | Key string

definition esc :: key where
  "esc = Key ''esc''"

record logger =
  console_out :: "string list"
  log_file :: "string list"

definition key_data :: "key \<Rightarrow> string" where
  "key_data k =
     (case k of KeyCode (Some c) \<Rightarrow> c | KeyCode None \<Rightarrow> ''None'' | Key name \<Rightarrow> ''Key.'' @ name)"

definition log_entry :: "string \<Rightarrow> key \<Rightarrow> string" where
  "log_entry timestamp k = ''['' @ timestamp @ ''] Key Pressed: '' @ key_data k"

definition on_press :: "string \<Rightarrow> key \<Rightarrow> logger \<Rightarrow> bool option \<times> logger" where
  "on_press timestamp k st =
     (None, st\<lparr>console_out := console_out st @ [log_entry timestamp k],
               log_file := log_file st @ [log_entry timestamp k @ [CHR 0x0A]]\<rparr>)"

definition on_release :: "key \<Rightarrow> logger \<Rightarrow> bool option \<times> logger" where
  "on_release k st =
     (if k = esc then (Some False, st\<lparr>console_out := console_out st @ [CHR 0x0A # ''[Logger Stopped]'']\<rparr>)
      else (None, st))"

datatype key_event = Press string key | Release key

fun listener :: "key_event list \<Rightarrow> logger \<Rightarrow> bool \<times> logger" where
  "listener [] st = (False, st)"
| "listener (Press timestamp k # evs) st =
     (case on_press timestamp k st of
        (ret, st') \<Rightarrow> if ret = Some False then (True, st') else listener evs st')"
| "listener (Release k # evs) st =
     (case on_release k st of
        (ret, st') \<Rightarrow> if ret = Some False then (True, st') else listener evs st')"

text \<open>The lines that the presses among the events \<open>evs\<close> append to the log file.\<close>

definition logged_lines :: "key_event list \<Rightarrow> string list" where
  "logged_lines evs =
     concat (map (\<lambda>ev. case ev of Press timestamp k \<Rightarrow> [log_entry timestamp k @ [CHR 0x0A]]
                                  | Release k \<Rightarrow> []) evs)"

section \<open>The sales incentive calculator (src/4.py)\<close>

text \<open>
  \<^verbatim>\<open>
  bonus_slabs = [
      {"min": 0.0, "max": 5.0, "bonus": 0},
      {"min": 5.0, "max": 10.0, "bonus": 10},
      {"min": 10.0, "max": 15.0, "bonus": 12},
      {"min": 15.0, "max": 999.0, "bonus": 15},
  ]
      try:
          raw_sales = float(sales_input)
          if raw_sales > 1000:  # simple threshold logic
              sales_lakh = raw_sales / 100000
          else:
              sales_lakh = raw_sales
          matched_bonus = 0
          for slab in bonus_slabs:
              if slab["min"] <= sales_lakh < slab["max"]:
                  matched_bonus = slab["bonus"]
                  break
          ...
          if matched_bonus > 0:
              (bonus summary)
          else:
              st.warning("No bonus applicable for this sales amount.")
      except ValueError:
          st.error("Please enter a valid number.")
  \<close>
  A Python float is a finite value, an infinity or NaN; comparisons of finite floats are
  exact, and every comparison with NaN is false. The rounded division by 100000 of a
  finite float is the parameter \<open>div_100000\<close>. The result of \<open>float(sales_input)\<close> is
  given as \<open>Some\<close> of the float, or \<open>None\<close> for ValueError. The amount shown in the
  summary is left out.
\<close>

datatype pyfloat = Finite real | PosInf | NegInf | NaN

fun float_le :: "pyfloat \<Rightarrow> pyfloat \<Rightarrow> bool" where
  "float_le NaN _ = False"
| "float_le _ NaN = False"
| "float_le NegInf _ = True"
| "float_le _ PosInf = True"
| "float_le (Finite a) (Finite b) = (a \<le> b)"
| "float_le _ _ = False"

fun float_lt :: "pyfloat \<Rightarrow> pyfloat \<Rightarrow> bool" where
  "float_lt NaN _ = False"
| "float_lt _ NaN = False"
| "float_lt (Finite a) (Finite b) = (a < b)"
| "float_lt NegInf NegInf = False"
| "float_lt NegInf _ = True"
| "float_lt PosInf _ = False"
| "float_lt _ PosInf = True"
| "float_lt _ _ = False"

record slab =
  slab_min :: pyfloat
  slab_max :: pyfloat
  bonus :: int

definition bonus_slabs :: "slab list" where
  "bonus_slabs =
     [\<lparr>slab_min = Finite 0, slab_max = Finite 5, bonus = 0\<rparr>,
      \<lparr>slab_min = Finite 5, slab_max = Finite 10, bonus = 10\<rparr>,
      \<lparr>slab_min = Finite 10, slab_max = Finite 15, bonus = 12\<rparr>,
      \<lparr>slab_min = Finite 15, slab_max = Finite 999, bonus = 15\<rparr>]"

definition float_div :: "(real \<Rightarrow> real) \<Rightarrow> pyfloat \<Rightarrow> pyfloat" where
  "float_div div_100000 x = (case x of Finite r \<Rightarrow> Finite (div_100000 r) | other \<Rightarrow> other)"

definition sales_lakh :: "(real \<Rightarrow> real) \<Rightarrow> pyfloat \<Rightarrow> pyfloat" where
  "sales_lakh div_100000 raw_sales =
     (if float_lt (Finite 1000) raw_sales then float_div div_100000 raw_sales else raw_sales)"

fun match_slab :: "slab list \<Rightarrow> pyfloat \<Rightarrow> int \<Rightarrow> int" where
  "match_slab [] lakh matched_bonus = matched_bonus"
| "match_slab (s # slabs) lakh matched_bonus =
     (if float_le (slab_min s) lakh \<and> float_lt lakh (slab_max s) then bonus s
      else match_slab slabs lakh matched_bonus)"

datatype display = BonusSummary pyfloat int | NoBonusWarning | InvalidNumber

definition sales_entry :: "(real \<Rightarrow> real) \<Rightarrow> pyfloat option \<Rightarrow> display" where
  "sales_entry div_100000 parsed =
     (case parsed of
        None \<Rightarrow> InvalidNumber
      | Some raw_sales \<Rightarrow>
          (let lakh = sales_lakh div_100000 raw_sales;
               matched_bonus = match_slab bonus_slabs lakh 0
           in if matched_bonus > 0 then BonusSummary lakh matched_bonus else NoBonusWarning))"

section \<open>Correctness of the sorting routines\<close>

subsection \<open>quick_sort\<close>

lemma mset_three_way:
  "mset (filter (\<lambda>x. x < p) xs) + mset (filter (\<lambda>x. x = p) xs)
     + mset (filter (\<lambda>x. x > p) xs) = mset (xs :: int list)"
  by (induction xs) auto

lemma sorted_filter_eq: "sorted (filter (\<lambda>x. x = p) (xs :: int list))"
  by (induction xs) auto

lemma mset_quick_sort: "mset (quick_sort arr) = mset arr"
proof (induction arr rule: quick_sort.induct)
  case (1 arr)
  show ?case
  proof (cases "length arr \<le> 1")
    case True
    then show ?thesis by (simp add: quick_sort.simps)
  next
    case False
    let ?p = "arr ! (length arr div 2)"
    have "mset (quick_sort arr) =
            mset (quick_sort (filter (\<lambda>x. x < ?p) arr))
          + mset (filter (\<lambda>x. x = ?p) arr)
          + mset (quick_sort (filter (\<lambda>x. x > ?p) arr))"
      using False by (subst quick_sort.simps) simp
    also have "\<dots> = mset (filter (\<lambda>x. x < ?p) arr) + mset (filter (\<lambda>x. x = ?p) arr)
                   + mset (filter (\<lambda>x. x > ?p) arr)"
      using 1 False by simp
    also have "\<dots> = mset arr" by (rule mset_three_way)
    finally show ?thesis .
  qed
qed

lemma set_quick_sort: "set (quick_sort arr) = set arr"
  using mset_quick_sort[of arr] by (rule mset_eq_setD)

lemma sorted_quick_sort: "sorted (quick_sort arr)"
proof (induction arr rule: quick_sort.induct)
  case (1 arr)
  show ?case
  proof (cases "length arr \<le> 1")
    case True
    then have "arr = [] \<or> (\<exists>a. arr = [a])"
      by (cases arr) auto
    then have "sorted arr" by auto
    with True show ?thesis by (simp add: quick_sort.simps)
  next
    case False
    let ?p = "arr ! (length arr div 2)"
    have l: "sorted (quick_sort (filter (\<lambda>x. x < ?p) arr))"
      using 1(1) False by simp
    have r: "sorted (quick_sort (filter (\<lambda>x. x > ?p) arr))"
      using 1(2) False by simp
    have m: "sorted (filter (\<lambda>x. x = ?p) arr)"
      by (rule sorted_filter_eq)
    have "sorted (quick_sort (filter (\<lambda>x. x < ?p) arr)
                  @ filter (\<lambda>x. x = ?p) arr
                  @ quick_sort (filter (\<lambda>x. x > ?p) arr))"
      using l r m by (auto simp: sorted_append set_quick_sort)
    then show ?thesis using False by (subst quick_sort.simps) simp
  qed
qed

text \<open>
  Claim C5. For every list of integers, \<open>quick_sort\<close> of src/nd.py returns a list that is
  a permutation of its input (same multiset of elements) arranged in non-decreasing order.
\<close>

theorem quick_sort_sorts:
  "sorted (quick_sort arr) \<and> mset (quick_sort arr) = mset arr"
proof (intro conjI)
  show "sorted (quick_sort arr)" by (rule sorted_quick_sort)
  show "mset (quick_sort arr) = mset arr" by (rule mset_quick_sort)
qed

theorem quick_sort_sorts_witness:
  "quick_sort [3, 1, 2, 3, -5] = [-5, 1, 2, 3, 3]
   \<and> sorted (quick_sort [3, 1, 2, 3, -5])
   \<and> mset (quick_sort [3, 1, 2, 3, -5]) = mset [3, 1, 2, 3, -5]"
  using quick_sort_sorts[of "[3, 1, 2, 3, -5]"] by (simp add: quick_sort.simps)

subsection \<open>merge_sort\<close>

lemma setitem_in_range: "k < length arr \<Longrightarrow> setitem arr k v = Some (arr[k := v])"
  by (simp add: setitem_def)

lemma take_Suc_update:
  assumes "k < length arr"
  shows "take (Suc k) (arr[k := v]) = take k arr @ [v]"
proof -
  have "take (Suc k) (arr[k := v]) = take k (arr[k := v]) @ [arr[k := v] ! k]"
    using assms by (simp add: take_Suc_conv_app_nth)
  then show ?thesis using assms by simp
qed

lemma copy_rest_value:
  "i \<le> length half \<Longrightarrow> k + (length half - i) \<le> length arr \<Longrightarrow>
   copy_rest half arr i k =
     Some (take k arr @ drop i half @ drop (k + (length half - i)) arr,
           length half, k + (length half - i))"
proof (induction half arr i k rule: copy_rest.induct)
  case (1 half arr i k)
  show ?case
  proof (cases "i < length half")
    case False
    with 1(2) have "i = length half" by simp
    then show ?thesis by (subst copy_rest.simps) simp
  next
    case True
    with 1(3) have kl: "k < length arr" by simp
    let ?arr1 = "arr[k := half ! i]"
    have s: "setitem arr k (half ! i) = Some ?arr1"
      using kl by (rule setitem_in_range)
    have ih: "copy_rest half ?arr1 (i + 1) (k + 1) =
          Some (take (k + 1) ?arr1 @ drop (i + 1) half
                  @ drop (k + 1 + (length half - (i + 1))) ?arr1,
                length half, k + 1 + (length half - (i + 1)))"
      using 1(1)[OF True s] True 1(3) by simp
    have e1: "k + 1 + (length half - (i + 1)) = k + (length half - i)"
      using True by simp
    have e2: "take (k + 1) ?arr1 = take k arr @ [half ! i]"
      using take_Suc_update[OF kl] by simp
    have e3: "drop (k + (length half - i)) ?arr1 = drop (k + (length half - i)) arr"
      using True by simp
    have e4: "drop i half = half ! i # drop (i + 1) half"
      using True by (simp add: Cons_nth_drop_Suc)
    have "copy_rest half arr i k = copy_rest half ?arr1 (i + 1) (k + 1)"
      using True s by (subst copy_rest.simps) simp
    then show ?thesis
      unfolding ih e1 e2 e3 e4 by simp
  qed
qed

lemma merge_phase_step_left:
  assumes "i < length L" "j < length R" "L ! i < R ! j" "k < length arr"
  shows "merge_phase L R arr i j k = merge_phase L R (arr[k := L ! i]) (i + 1) j (k + 1)"
  unfolding merge_phase_def
  using assms by (subst merge_while.simps) (simp add: setitem_def)

lemma merge_phase_step_right:
  assumes "i < length L" "j < length R" "\<not> L ! i < R ! j" "k < length arr"
  shows "merge_phase L R arr i j k = merge_phase L R (arr[k := R ! j]) i (j + 1) (k + 1)"
  unfolding merge_phase_def
  using assms by (subst merge_while.simps) (simp add: setitem_def)

lemma merge_phase_done:
  assumes "\<not> (i < length L \<and> j < length R)" "i \<le> length L" "j \<le> length R"
    "k = i + j" "length arr = length L + length R"
  shows "merge_phase L R arr i j k = Some (take k arr @ merge_lists (drop i L) (drop j R))"
proof -
  have w: "merge_while L R arr i j k = Some (arr, i, j, k)"
    by (subst merge_while.simps) (simp only: if_not_P[OF assms(1)])
  have c1: "copy_rest L arr i k =
      Some (take k arr @ drop i L @ drop (k + (length L - i)) arr,
            length L, k + (length L - i))"
    using assms by (intro copy_rest_value) auto
  let ?arr2 = "take k arr @ drop i L @ drop (k + (length L - i)) arr"
  let ?k2 = "k + (length L - i)"
  have len2: "length ?arr2 = length arr" using assms by auto
  have c2: "copy_rest R ?arr2 j ?k2 =
      Some (take ?k2 ?arr2 @ drop j R @ drop (?k2 + (length R - j)) ?arr2,
            length R, ?k2 + (length R - j))"
    using assms len2 by (intro copy_rest_value) auto
  have t: "take ?k2 ?arr2 = take k arr @ drop i L"
    using assms by auto
  have d: "drop (?k2 + (length R - j)) ?arr2 = []"
    using assms len2 by auto
  have m: "merge_lists (drop i L) (drop j R) = drop i L @ drop j R"
  proof (cases "i < length L")
    case True
    with assms have "drop j R = []" by simp
    then show ?thesis by (cases "drop i L") simp_all
  next
    case False
    then show ?thesis by simp
  qed
  show ?thesis
    unfolding merge_phase_def w
    by (simp add: c1 c2 t d m del: append_assoc take_append drop_append)
qed

lemma merge_phase_value:
  "i \<le> length L \<Longrightarrow> j \<le> length R \<Longrightarrow> k = i + j \<Longrightarrow> length arr = length L + length R \<Longrightarrow>
   merge_phase L R arr i j k = Some (take k arr @ merge_lists (drop i L) (drop j R))"
proof (induction L R arr i j k rule: merge_while.induct)
  case (1 L R arr i j k)
  show ?case
  proof (cases "i < length L \<and> j < length R")
    case False
    then show ?thesis using 1(3-6) by (rule merge_phase_done)
  next
    case True
    then have kl: "k < length arr" using 1(5,6) by simp
    have dl: "drop i L = L ! i # drop (i + 1) L"
      using True by (simp add: Cons_nth_drop_Suc)
    have dr: "drop j R = R ! j # drop (j + 1) R"
      using True by (simp add: Cons_nth_drop_Suc)
    show ?thesis
    proof (cases "L ! i < R ! j")
      case lt: True
      have s: "setitem arr k (L ! i) = Some (arr[k := L ! i])"
        using kl by (rule setitem_in_range)
      have "merge_phase L R (arr[k := L ! i]) (i + 1) j (k + 1) =
            Some (take (k + 1) (arr[k := L ! i]) @ merge_lists (drop (i + 1) L) (drop j R))"
        using 1(1)[OF True lt s] True 1(4-6) by simp
      also have "\<dots> = Some (take k arr @ merge_lists (drop i L) (drop j R))"
        using take_Suc_update[OF kl, of "L ! i"] lt
        by (simp add: dr) (simp add: dl)
      finally show ?thesis
        using merge_phase_step_left[of i L j R k arr] True lt kl by simp
    next
      case ge: False
      have s: "setitem arr k (R ! j) = Some (arr[k := R ! j])"
        using kl by (rule setitem_in_range)
      have "merge_phase L R (arr[k := R ! j]) i (j + 1) (k + 1) =
            Some (take (k + 1) (arr[k := R ! j]) @ merge_lists (drop i L) (drop (j + 1) R))"
        using 1(2)[OF True ge s] True 1(3,5,6) by simp
      also have "\<dots> = Some (take k arr @ merge_lists (drop i L) (drop j R))"
        using take_Suc_update[OF kl, of "R ! j"] ge
        by (simp add: dl) (simp add: dr)
      finally show ?thesis
        using merge_phase_step_right[of i L j R k arr] True ge kl by simp
    qed
  qed
qed


lemma mset_merge_lists: "mset (merge_lists xs ys) = mset xs + mset ys"
  by (induction xs ys rule: merge_lists.induct) simp_all

lemma set_merge_lists: "set (merge_lists xs ys) = set xs \<union> set ys"
  using mset_merge_lists[of xs ys] by (metis set_mset_mset set_mset_union)

lemma sorted_merge_lists: "sorted xs \<Longrightarrow> sorted ys \<Longrightarrow> sorted (merge_lists xs ys)"
  by (induction xs ys rule: merge_lists.induct) (auto simp: set_merge_lists)

lemma merge_sort_unfold:
  assumes "length arr > 1"
    and "merge_sort (take (length arr div 2) arr) = Some L"
    and "merge_sort (drop (length arr div 2) arr) = Some R"
  shows "merge_sort arr = merge_phase L R arr 0 0 0"
  using assms by (subst merge_sort.simps) (simp add: merge_phase_def)

text \<open>
  Claim C3. For every list of integers, \<open>merge_sort\<close> (the same text in src/nd.py,
  src/shree.py and src/eye.py) returns without raising, and the list after the call is a
  permutation of the list before it, in non-decreasing order.
\<close>

theorem merge_sort_sorts:
  "\<exists>ys. merge_sort arr = Some ys \<and> sorted ys \<and> mset ys = mset arr"
proof (induction arr rule: merge_sort.induct)
  case (1 arr)
  show ?case
  proof (cases "length arr > 1")
    case False
    then have "arr = [] \<or> (\<exists>a. arr = [a])" by (cases arr) auto
    then have "sorted arr" by auto
    moreover have "merge_sort arr = Some arr"
      using False by (subst merge_sort.simps) simp
    ultimately show ?thesis by simp
  next
    case True
    let ?mid = "length arr div 2"
    from 1(1)[OF True] obtain L where
      L: "merge_sort (take ?mid arr) = Some L" "sorted L" "mset L = mset (take ?mid arr)"
      by blast
    from 1(2)[OF True L(1)] obtain R where
      R: "merge_sort (drop ?mid arr) = Some R" "sorted R" "mset R = mset (drop ?mid arr)"
      by blast
    have "mset (take ?mid arr) + mset (drop ?mid arr) = mset (take ?mid arr @ drop ?mid arr)"
      by (simp only: mset_append)
    then have ms: "mset L + mset R = mset arr"
      by (simp only: L(3) R(3) append_take_drop_id)
    then have "size (mset L + mset R) = size (mset arr)" by simp
    then have len: "length arr = length L + length R" by simp
    have "merge_sort arr = merge_phase L R arr 0 0 0"
      using True L(1) R(1) by (rule merge_sort_unfold)
    also have "\<dots> = Some (take 0 arr @ merge_lists (drop 0 L) (drop 0 R))"
      using len by (intro merge_phase_value) simp_all
    finally have "merge_sort arr = Some (merge_lists L R)" by simp
    moreover have "sorted (merge_lists L R)"
      using L(2) R(2) by (rule sorted_merge_lists)
    moreover have "mset (merge_lists L R) = mset arr"
      using ms by (simp add: mset_merge_lists)
    ultimately show ?thesis by simp
  qed
qed

theorem merge_sort_sorts_witness:
  "merge_sort [3, 1, 2, 3, -5] = Some [-5, 1, 2, 3, 3]
   \<and> (\<exists>ys. merge_sort [3, 1, 2, 3, -5] = Some ys \<and> sorted ys
            \<and> mset ys = mset [3, 1, 2, 3, -5])"
  using merge_sort_sorts[of "[3, 1, 2, 3, -5]"]
  by (simp add: merge_sort.simps merge_while.simps copy_rest.simps setitem_def)

subsection \<open>bubble_sort\<close>

lemma for_each_snoc:
  "for_each (xs @ [x]) body s = for_each xs body s \<bind> body x"
  by (induction xs arbitrary: s) (simp_all add: bind_assoc)

lemma compare_swap_in_range:
  assumes "Suc j < length arr"
  shows "compare_swap j arr =
           Some (if arr ! j > arr ! Suc j then arr[j := arr ! Suc j, Suc j := arr ! j] else arr)"
  using assms by (simp add: compare_swap_def getitem_def setitem_def)

lemma mset_swapped:
  assumes "Suc j < length (arr :: int list)"
  shows "mset (arr[j := arr ! Suc j, Suc j := arr ! j]) = mset arr"
  using mset_swap[of "Suc j" arr j] assms by simp

lemma inner_pass:
  "m < length arr \<Longrightarrow>
   \<exists>r. for_each [0..<m] compare_swap arr = Some r
      \<and> length r = length arr \<and> mset r = mset arr
      \<and> (\<forall>k. m < k \<and> k < length arr \<longrightarrow> r ! k = arr ! k)
      \<and> (\<forall>k\<le>m. r ! k \<le> r ! m)"
proof (induction m)
  case 0
  then show ?case by simp
next
  case (Suc m)
  then have "m < length arr" by simp
  with Suc.IH obtain r where
    r: "for_each [0..<m] compare_swap arr = Some r" "length r = length arr"
       "mset r = mset arr" "\<forall>k. m < k \<and> k < length arr \<longrightarrow> r ! k = arr ! k"
       "\<forall>k\<le>m. r ! k \<le> r ! m"
    by blast
  have inr: "Suc m < length r" using Suc.prems r(2) by simp
  let ?r' = "if r ! m > r ! Suc m then r[m := r ! Suc m, Suc m := r ! m] else r"
  have run: "for_each [0..<Suc m] compare_swap arr = Some ?r'"
    using r(1) compare_swap_in_range[OF inr] by (simp add: for_each_snoc)
  have len: "length ?r' = length arr" using r(2) by simp
  have ms: "mset ?r' = mset arr" using mset_swapped[OF inr] r(3) by simp
  have rest: "\<forall>k. Suc m < k \<and> k < length arr \<longrightarrow> ?r' ! k = arr ! k"
    using r(4) by simp
  have top: "\<forall>k\<le>Suc m. ?r' ! k \<le> ?r' ! Suc m"
  proof (intro allI impI)
    fix k assume k: "k \<le> Suc m"
    show "?r' ! k \<le> ?r' ! Suc m"
    proof (cases "r ! m > r ! Suc m")
      case True
      have "k < m \<or> k = m \<or> k = Suc m" using k by arith
      then show ?thesis
      proof (elim disjE)
        assume "k < m"
        then have "r ! k \<le> r ! m" using r(5) by simp
        then show ?thesis using True inr \<open>k < m\<close> by simp
      next
        assume "k = m"
        then show ?thesis using True inr by simp
      next
        assume "k = Suc m"
        then show ?thesis by simp
      qed
    next
      case False
      show ?thesis
      proof (cases "k = Suc m")
        case True
        then show ?thesis by simp
      next
        case ne: False
        then have "k \<le> m" using k by simp
        then have "r ! k \<le> r ! m" using r(5) by simp
        then show ?thesis using False by simp
      qed
    qed
  qed
  show ?case using run len ms rest top by blast
qed

lemma prefix_mset:
  assumes "length r = length arr" and "mset r = mset (arr :: int list)"
    and "\<forall>k. m \<le> k \<and> k < length arr \<longrightarrow> r ! k = arr ! k"
  shows "mset (take m r) = mset (take m arr)"
proof -
  have "drop m r = drop m arr"
    using assms(1,3) by (intro nth_equalityI) simp_all
  moreover have "mset (take m r) + mset (drop m r) = mset (take m arr) + mset (drop m arr)"
    using assms(2) by (simp only: mset_append[symmetric] append_take_drop_id)
  ultimately show ?thesis by simp
qed

lemma outer_passes:
  "i \<le> length arr \<Longrightarrow>
   \<exists>r. for_each [0..<i] (\<lambda>i. for_each [0..<length arr - i - 1] compare_swap) arr = Some r
      \<and> length r = length arr \<and> mset r = mset arr
      \<and> (\<forall>p q. length arr - i \<le> q \<and> q < length arr \<and> p \<le> q \<longrightarrow> r ! p \<le> r ! q)"
proof (induction i)
  case 0
  then show ?case by simp
next
  case (Suc i)
  let ?n = "length arr"
  let ?m = "?n - i - 1"
  from Suc obtain r where
    r: "for_each [0..<i] (\<lambda>i. for_each [0..<?n - i - 1] compare_swap) arr = Some r"
       "length r = ?n" "mset r = mset arr"
       "\<forall>p q. ?n - i \<le> q \<and> q < ?n \<and> p \<le> q \<longrightarrow> r ! p \<le> r ! q"
    by auto
  have m: "?m < length r" "Suc ?m = ?n - i" using Suc.prems r(2) by simp_all
  from inner_pass[OF m(1)] obtain r' where
    r': "for_each [0..<?m] compare_swap r = Some r'" "length r' = length r"
        "mset r' = mset r" "\<forall>k. ?m < k \<and> k < length r \<longrightarrow> r' ! k = r ! k"
        "\<forall>k\<le>?m. r' ! k \<le> r' ! ?m"
    by blast
  have run: "for_each [0..<Suc i] (\<lambda>i. for_each [0..<?n - i - 1] compare_swap) arr = Some r'"
    using r(1) r'(1) by (simp add: for_each_snoc)
  have pre: "mset (take (Suc ?m) r') = mset (take (Suc ?m) r)"
    using r'(2,3,4) by (intro prefix_mset) simp_all
  have inv: "\<forall>p q. ?n - Suc i \<le> q \<and> q < ?n \<and> p \<le> q \<longrightarrow> r' ! p \<le> r' ! q"
  proof (intro allI impI)
    fix p q assume pq: "?n - Suc i \<le> q \<and> q < ?n \<and> p \<le> q"
    show "r' ! p \<le> r' ! q"
    proof (cases "q = ?m")
      case True
      then show ?thesis using r'(5) pq by simp
    next
      case False
      then have q: "?m < q" "?n - i \<le> q" using pq Suc.prems by auto
      then have rq: "r' ! q = r ! q" using r'(4) pq r(2) by simp
      show ?thesis
      proof (cases "p \<le> ?m")
        case False
        then have "r' ! p = r ! p" using r'(4) pq r(2) by simp
        then show ?thesis using rq r(4) pq q by simp
      next
        case True
        then have "p < length (take (Suc ?m) r')" using m r'(2) by simp
        then have "take (Suc ?m) r' ! p \<in> set (take (Suc ?m) r')" by (rule nth_mem)
        then have "r' ! p \<in> set (take (Suc ?m) r')" using True by simp
        also have "set (take (Suc ?m) r') = set (take (Suc ?m) r)"
          using pre by (rule mset_eq_setD)
        finally obtain p' where p': "p' < length (take (Suc ?m) r)" "take (Suc ?m) r ! p' = r' ! p"
          by (auto simp: in_set_conv_nth)
        then have "p' \<le> ?m" "r ! p' = r' ! p" by simp_all
        then show ?thesis using rq r(4) pq q by (metis le_trans less_imp_le_nat)
      qed
    qed
  qed
  show ?case using run r'(2) r(2) r'(3) r(3) inv by auto
qed

text \<open>
  Claim C4. For every list of integers, \<open>bubble_sort\<close> as written in src/nd.py,
  src/night.py and src/eye.py returns without raising, and the list after the call is a
  permutation of the list before it, in non-decreasing order.
\<close>

theorem bubble_sort_sorts:
  "\<exists>ys. bubble_sort arr = Some ys \<and> sorted ys \<and> mset ys = mset arr"
proof -
  from outer_passes[of "length arr" arr] obtain r where
    r: "for_each [0..<length arr] (\<lambda>i. for_each [0..<length arr - i - 1] compare_swap) arr = Some r"
       "length r = length arr" "mset r = mset arr"
       "\<forall>p q. q < length arr \<and> p \<le> q \<longrightarrow> r ! p \<le> r ! q"
    by auto
  have "sorted r" using r(2,4) by (simp add: sorted_iff_nth_mono)
  then show ?thesis using r(1,3) by (simp add: bubble_sort_def)
qed

theorem bubble_sort_sorts_witness:
  "bubble_sort [3, 1, 2, 3, -5] = Some [-5, 1, 2, 3, 3]
   \<and> (\<exists>ys. bubble_sort [3, 1, 2, 3, -5] = Some ys \<and> sorted ys
            \<and> mset ys = mset [3, 1, 2, 3, -5])"
  using bubble_sort_sorts[of "[3, 1, 2, 3, -5]"]
  by (simp add: bubble_sort_def compare_swap_def getitem_def setitem_def upt_rec)

text \<open>
  Claim C1. The \<open>bubble_sort\<close> of src/shree.py is claimed to leave a sorted permutation
  of its input. On the list \<open>[2, 1]\<close> it leaves \<open>[2, 2]\<close>: the element 1 is lost, so the
  result is not a permutation of the input.
\<close>

theorem bubble_sort_shree_not_permutation:
  "bubble_sort_shree [2, 1] = Some [2, 2] \<and> mset [2, 2 :: int] \<noteq> mset [2, 1]"
  by (simp add: bubble_sort_shree_def compare_swap_shree_def getitem_def setitem_def upt_rec)

section \<open>Loading the data file\<close>

lemma load_attempt:
  "try_except
     (io_bind (io_lift (read_csv p))
        (\<lambda>data. io_seq (py_print ''File loaded successfully.'') (io_return (Some data))))
     FileNotFoundError
     (io_seq (py_print (not_exist_message p)) (io_return None)) w =
   (case read_csv p of
      Inr data \<Rightarrow> (Inr (Some data), emit (Print ''File loaded successfully.'') w)
    | Inl e \<Rightarrow> if e = FileNotFoundError
               then (Inr None, emit (Print (not_exist_message p)) w)
               else (Inl e, w))"
  by (simp add: try_except_def io_bind_def io_lift_def io_seq_def py_print_def io_return_def
           split: sum.splits)

lemma analyiz_load_data_cases:
  "analyiz_load_data read_csv p w =
   (case read_csv p of
      Inr data \<Rightarrow> (Inr (Some data), emit (Print ''File loaded successfully.'') w)
    | Inl e \<Rightarrow> if e = FileNotFoundError
               then (Inr None, emit (Print (not_exist_message p)) w)
               else (Inl e, w))"
  unfolding analyiz_load_data_def by (rule load_attempt)

lemma ml_load_data_cases:
  "ml_load_data read_csv path_exists c w =
   (case read_csv (ml_file_path path_exists c) of
      Inr data \<Rightarrow> (Inr (Some data),
                    emit (Print ''File loaded successfully.'') (ml_notice path_exists c w))
    | Inl e \<Rightarrow> if e = FileNotFoundError
               then (Inr None, emit (Print (not_exist_message (ml_file_path path_exists c)))
                                 (ml_notice path_exists c w))
               else (Inl e, ml_notice path_exists c w))"
proof -
  have "ml_load_data read_csv path_exists c w =
        try_except
          (io_bind (io_lift (read_csv (ml_file_path path_exists c)))
             (\<lambda>data. io_seq (py_print ''File loaded successfully.'') (io_return (Some data))))
          FileNotFoundError
          (io_seq (py_print (not_exist_message (ml_file_path path_exists c)))
             (io_return None)) (ml_notice path_exists c w)"
    by (simp add: ml_load_data_def ml_notice_def io_seq_def io_bind_def py_print_def
          io_return_def)
  then show ?thesis by (simp only: load_attempt)
qed

text \<open>
  Claim C6. For every file path, \<open>load_data\<close> returns the parsed frame (after printing
  that the file is loaded) when \<open>read_csv\<close> returns it; it returns \<open>None\<close>, after printing
  that the file of that path does not exist, exactly when \<open>read_csv\<close> raises
  FileNotFoundError; any other
  exception of \<open>read_csv\<close> leaves \<open>load_data\<close> uncaught. The same holds for the variant
  of src/ml_procedural.py on the path it chooses.
\<close>

theorem load_data_catches_only_FileNotFoundError:
  "(read_csv p = Inr data \<longrightarrow>
      analyiz_load_data read_csv p w
        = (Inr (Some data), emit (Print ''File loaded successfully.'') w))
   \<and> (read_csv p = Inl FileNotFoundError \<longrightarrow>
      analyiz_load_data read_csv p w
        = (Inr None, emit (Print (''Error: The file '' @ CHR 0x27 # p @ CHR 0x27 # '' does not exist.'')) w))
   \<and> ((\<exists>w'. analyiz_load_data read_csv p w = (Inr None, w'))
        \<longleftrightarrow> read_csv p = Inl FileNotFoundError)
   \<and> (read_csv p = Inl e \<and> e \<noteq> FileNotFoundError \<longrightarrow>
      analyiz_load_data read_csv p w = (Inl e, w))
   \<and> (read_csv (ml_file_path path_exists c) = Inr data \<longrightarrow>
      ml_load_data read_csv path_exists c w
        = (Inr (Some data),
           emit (Print ''File loaded successfully.'') (ml_notice path_exists c w)))
   \<and> (read_csv (ml_file_path path_exists c) = Inl FileNotFoundError \<longrightarrow>
      ml_load_data read_csv path_exists c w
        = (Inr None, emit (Print (''Error: The file '' @ CHR 0x27 # ml_file_path path_exists c @ CHR 0x27 # '' does not exist.''))
                       (ml_notice path_exists c w)))
   \<and> ((\<exists>w'. ml_load_data read_csv path_exists c w = (Inr None, w'))
        \<longleftrightarrow> read_csv (ml_file_path path_exists c) = Inl FileNotFoundError)
   \<and> (read_csv (ml_file_path path_exists c) = Inl e \<and> e \<noteq> FileNotFoundError \<longrightarrow>
      ml_load_data read_csv path_exists c w = (Inl e, ml_notice path_exists c w))"
proof (intro conjI impI)
  show "(\<exists>w'. analyiz_load_data read_csv p w = (Inr None, w'))
        \<longleftrightarrow> read_csv p = Inl FileNotFoundError"
    by (auto simp: analyiz_load_data_cases split: sum.splits if_splits)
  show "(\<exists>w'. ml_load_data read_csv path_exists c w = (Inr None, w'))
        \<longleftrightarrow> read_csv (ml_file_path path_exists c) = Inl FileNotFoundError"
    by (auto simp: ml_load_data_cases split: sum.splits if_splits)
qed (simp_all add: analyiz_load_data_cases ml_load_data_cases not_exist_message_def)

theorem load_data_witness:
  "analyiz_load_data sample_read_csv ''data.csv'' (console [])
     = (Inr (Some [''1,2'', ''3,4'']),
        \<lparr>stdin = [], stdout = [Print ''File loaded successfully.'']\<rparr>)
   \<and> analyiz_load_data sample_read_csv ''nothing.csv'' (console [])
     = (Inr None,
        \<lparr>stdin = [],
         stdout = [Print (''Error: The file '' @ CHR 0x27 # ''nothing.csv''
                          @ CHR 0x27 # '' does not exist.'')]\<rparr>)
   \<and> analyiz_load_data sample_read_csv ''locked.csv'' (console [])
     = (Inl (OtherError ''PermissionError''), console [])
   \<and> ml_load_data sample_read_csv (\<lambda>p. True) ''data.csv'' (console [])
     = (Inr (Some [''1,2'', ''3,4'']),
        \<lparr>stdin = [], stdout = [Print ''File loaded successfully.'']\<rparr>)
   \<and> ml_load_data sample_read_csv (\<lambda>p. False) ''data.csv'' (console [])
     = (Inr None,
        \<lparr>stdin = [],
         stdout = [Print (''File '' @ CHR 0x27 # ''data.csv'' @ CHR 0x27
                          # '' not found in current directory, trying full path...''),
                   Print (''Error: The file '' @ CHR 0x27
                          # (''D:'' @ CHR 0x5C # ''AURO'' @ CHR 0x5C # ''AURO workplace''
                             @ CHR 0x5C # ''VS Code'' @ CHR 0x5C # ''Python''
                             @ CHR 0x5C # ''Sem 3'' @ CHR 0x5C # ''DataSet Analysis''
                             @ CHR 0x5C # ''data.csv'')
                          @ CHR 0x27 # '' does not exist.'')]\<rparr>)
   \<and> ml_load_data sample_read_csv (\<lambda>p. True) ''locked.csv'' (console [])
     = (Inl (OtherError ''PermissionError''), console [])"
  using load_data_catches_only_FileNotFoundError
          [of sample_read_csv "''data.csv''" "[''1,2'', ''3,4'']" "console []"
              "OtherError ''PermissionError''" "\<lambda>p. True" "''data.csv''"]
        load_data_catches_only_FileNotFoundError
          [of sample_read_csv "''nothing.csv''" "[]" "console []"
              "OtherError ''PermissionError''" "\<lambda>p. False" "''data.csv''"]
        load_data_catches_only_FileNotFoundError
          [of sample_read_csv "''locked.csv''" "[]" "console []"
              "OtherError ''PermissionError''" "\<lambda>p. True" "''locked.csv''"]
  by (simp add: sample_read_csv_def console_def emit_def ml_notice_def ml_file_path_def
        ml_fallback_path_def)

section \<open>The key listener\<close>

lemma on_release_False: "fst (on_release k st) = Some False \<longleftrightarrow> k = esc"
  by (simp add: on_release_def)

lemma on_release_other: "k \<noteq> esc \<Longrightarrow> on_release k st = (None, st)"
  by (simp add: on_release_def)

lemma on_press_None: "fst (on_press timestamp k st) = None"
  by (simp add: on_press_def)

lemma listener_stops_iff: "fst (listener evs st) \<longleftrightarrow> Release esc \<in> set evs"
proof (induction evs st rule: listener.induct)
  case (1 st)
  show ?case by simp
next
  case (2 timestamp k evs st)
  then show ?case by (simp add: on_press_def)
next
  case (3 k evs st)
  then show ?case by (auto simp: on_release_def split: prod.splits)
qed

lemma listener_log:
  "log_file (snd (listener evs st))
     = log_file st @ logged_lines (takeWhile (\<lambda>ev. ev \<noteq> Release esc) evs)"
proof (induction evs st rule: listener.induct)
  case (1 st)
  show ?case by (simp add: logged_lines_def)
next
  case (2 timestamp k evs st)
  then show ?case by (simp add: on_press_def logged_lines_def)
next
  case (3 k evs st)
  then show ?case by (auto simp: on_release_def logged_lines_def split: prod.splits)
qed

text \<open>
  Claim C7. \<open>on_release\<close> returns \<open>False\<close> exactly when the released key is
  \<open>keyboard.Key.esc\<close>; for any other key it returns \<open>None\<close> and leaves the state as it
  is, and \<open>on_press\<close> always returns \<open>None\<close>. Hence the listener has stopped after a
  sequence of events if and only if the sequence holds a release of the escape key, and
  the log file has one line for every key press before that release.
\<close>

theorem listener_stops_on_esc_release:
  "(fst (on_release k st) = Some False \<longleftrightarrow> k = esc)
   \<and> (k \<noteq> esc \<longrightarrow> on_release k st = (None, st))
   \<and> fst (on_press timestamp k st) = None
   \<and> (fst (listener evs st) \<longleftrightarrow> Release esc \<in> set evs)
   \<and> log_file (snd (listener evs st))
       = log_file st @ logged_lines (takeWhile (\<lambda>ev. ev \<noteq> Release esc) evs)"
proof (intro conjI impI)
  show "fst (on_release k st) = Some False \<longleftrightarrow> k = esc" by (rule on_release_False)
  show "on_release k st = (None, st)" if "k \<noteq> esc" using that by (rule on_release_other)
  show "fst (on_press timestamp k st) = None" by (rule on_press_None)
  show "fst (listener evs st) \<longleftrightarrow> Release esc \<in> set evs" by (rule listener_stops_iff)
  show "log_file (snd (listener evs st))
       = log_file st @ logged_lines (takeWhile (\<lambda>ev. ev \<noteq> Release esc) evs)"
    by (rule listener_log)
qed

theorem listener_witness:
  "on_release (KeyCode (Some ''a'')) \<lparr>console_out = [], log_file = []\<rparr>
     = (None, \<lparr>console_out = [], log_file = []\<rparr>)
   \<and> fst (on_release esc \<lparr>console_out = [], log_file = []\<rparr>) = Some False
   \<and> \<not> fst (listener [Press ''t1'' (KeyCode (Some ''a'')), Release (KeyCode (Some ''a'')),
                        Press ''t2'' esc]
               \<lparr>console_out = [], log_file = []\<rparr>)
   \<and> listener [Press ''t1'' (KeyCode (Some ''a'')), Release (KeyCode (Some ''a'')),
                Press ''t2'' esc, Release esc, Press ''t3'' (Key ''space'')]
        \<lparr>console_out = [], log_file = []\<rparr>
     = (True, \<lparr>console_out = [''[t1] Key Pressed: a'', ''[t2] Key Pressed: Key.esc'',
                               CHR 0x0A # ''[Logger Stopped]''],
               log_file = [''[t1] Key Pressed: a'' @ [CHR 0x0A],
                           ''[t2] Key Pressed: Key.esc'' @ [CHR 0x0A]]\<rparr>)"
  using listener_stops_on_esc_release
          [of "KeyCode (Some ''a'')" "\<lparr>console_out = [], log_file = []\<rparr>" "''t1''"
              "[Press ''t1'' (KeyCode (Some ''a'')), Release (KeyCode (Some ''a'')),
                Press ''t2'' esc]"]
  by (simp add: on_release_def on_press_def esc_def log_entry_def key_data_def)

section \<open>The bonus slabs\<close>

lemma match_slab_find:
  "match_slab slabs lakh m =
     (case find (\<lambda>s. float_le (slab_min s) lakh \<and> float_lt lakh (slab_max s)) slabs of
        Some s \<Rightarrow> bonus s | None \<Rightarrow> m)"
  by (induction slabs) simp_all

lemma gap_no_slab:
  assumes "999 \<le> r" and "r \<le> 1000"
  shows "find (\<lambda>s. float_le (slab_min s) (Finite r) \<and> float_lt (Finite r) (slab_max s))
           bonus_slabs = None"
  using assms by (simp add: bonus_slabs_def)

text \<open>
  Claim C10. The bonus rate is the rate of the first slab whose interval \<open>[min, max)\<close>
  holds the sales value in lakhs, and 0 when there is none; a raw input greater than 1000
  is first divided by 100000. No slab holds a value of the interval \<open>[999, 1000]\<close>, so
  such a value gets the rate 0 and the warning that no bonus applies, although it is at
  least the minimum of the last slab.
\<close>

theorem bonus_rate_is_first_matching_slab:
  "match_slab bonus_slabs lakh 0 =
     (case find (\<lambda>s. float_le (slab_min s) lakh \<and> float_lt lakh (slab_max s)) bonus_slabs of
        Some s \<Rightarrow> bonus s | None \<Rightarrow> 0)
   \<and> sales_lakh div_100000 raw_sales =
       (if float_lt (Finite 1000) raw_sales then float_div div_100000 raw_sales
        else raw_sales)
   \<and> sales_entry div_100000 (Some raw_sales) =
       (if match_slab bonus_slabs (sales_lakh div_100000 raw_sales) 0 > 0
        then BonusSummary (sales_lakh div_100000 raw_sales)
               (match_slab bonus_slabs (sales_lakh div_100000 raw_sales) 0)
        else NoBonusWarning)
   \<and> (sales_lakh div_100000 raw_sales = Finite r \<and> 999 \<le> r \<and> r \<le> 1000 \<longrightarrow>
        find (\<lambda>s. float_le (slab_min s) (Finite r) \<and> float_lt (Finite r) (slab_max s))
          bonus_slabs = None
        \<and> match_slab bonus_slabs (Finite r) 0 = 0
        \<and> float_le (slab_min (last bonus_slabs)) (Finite r)
        \<and> sales_entry div_100000 (Some raw_sales) = NoBonusWarning)"
proof (intro conjI impI)
  show "match_slab bonus_slabs lakh 0 =
     (case find (\<lambda>s. float_le (slab_min s) lakh \<and> float_lt lakh (slab_max s)) bonus_slabs of
        Some s \<Rightarrow> bonus s | None \<Rightarrow> 0)"
    by (rule match_slab_find)
  show "sales_lakh div_100000 raw_sales =
       (if float_lt (Finite 1000) raw_sales then float_div div_100000 raw_sales
        else raw_sales)"
    by (simp add: sales_lakh_def)
  show "sales_entry div_100000 (Some raw_sales) =
       (if match_slab bonus_slabs (sales_lakh div_100000 raw_sales) 0 > 0
        then BonusSummary (sales_lakh div_100000 raw_sales)
               (match_slab bonus_slabs (sales_lakh div_100000 raw_sales) 0)
        else NoBonusWarning)"
    by (simp add: sales_entry_def Let_def)
next
  assume a: "sales_lakh div_100000 raw_sales = Finite r \<and> 999 \<le> r \<and> r \<le> 1000"
  then have r: "999 \<le> r \<and> r \<le> 1000" by simp
  then show gap: "find (\<lambda>s. float_le (slab_min s) (Finite r) \<and> float_lt (Finite r) (slab_max s))
          bonus_slabs = None"
    by (simp add: gap_no_slab)
  then show zero: "match_slab bonus_slabs (Finite r) 0 = 0"
    by (simp add: match_slab_find)
  show "float_le (slab_min (last bonus_slabs)) (Finite r)"
    using r by (simp add: bonus_slabs_def)
  show "sales_entry div_100000 (Some raw_sales) = NoBonusWarning"
    using a zero by (simp add: sales_entry_def)
qed

theorem bonus_rate_witness:
  "sales_entry (\<lambda>r. r / 100000) (Some (Finite 1250000)) = BonusSummary (Finite 12.5) 12
   \<and> sales_entry (\<lambda>r. r / 100000) (Some (Finite 7)) = BonusSummary (Finite 7) 10
   \<and> match_slab bonus_slabs (Finite 999.5) 0 = 0
   \<and> sales_entry (\<lambda>r. r / 100000) (Some (Finite 999.5)) = NoBonusWarning
   \<and> sales_entry (\<lambda>r. r / 100000) (Some (Finite 99950000)) = NoBonusWarning"
  using bonus_rate_is_first_matching_slab
          [of "Finite 12.5" "\<lambda>r. r / 100000" "Finite 1250000" "12.5"]
        bonus_rate_is_first_matching_slab
          [of "Finite 7" "\<lambda>r. r / 100000" "Finite 999.5" "999.5"]
        bonus_rate_is_first_matching_slab
          [of "Finite 7" "\<lambda>r. r / 100000" "Finite 99950000" "999.5"]
  by (simp add: bonus_slabs_def float_div_def sales_lakh_def sales_entry_def)

section \<open>The console scripts\<close>

subsection \<open>Evaluation of the primitives\<close>

lemmas io_defs = io_bind_def io_seq_def io_return_def io_raise_def io_lift_def py_print_def
  py_input_def print_rows_def emit_def int_of_input_def try_except_def after_input_def

lemmas menu_defs = shree_display_def main_menu_display_def menu_read_def menu_eof_def

lemma menu_read_simps:
  "stdin (menu_read d c rest w) = rest"
  "stdout (menu_read d c rest w) = stdout w @ d @ [Input ''Enter your choice: '' c]"
  "stdin (emit ev w) = stdin w"
  "stdout (emit ev w) = stdout w @ [ev]"
  "stdin (menu_eof d w) = stdin w"
  "stdout (menu_eof d w) = stdout w @ d @ [InputEOF ''Enter your choice: '']"
  by (simp_all add: menu_read_def emit_def menu_eof_def)

lemma library_raised_iff:
  "library_raised env e w \<longleftrightarrow>
     (\<exists>before name args. stdout w = before @ [Call name args]
        \<and> library_raises env before name args = Some e)"
proof (cases "stdout w" rule: rev_cases)
  case Nil
  then show ?thesis by (simp add: library_raised_def)
next
  case (snoc before ev)
  then show ?thesis by (cases ev) (simp_all add: library_raised_def)
qed

lemma call_facts:
  assumes "call env name args w = (r, w')"
  shows "stdin w' = stdin w \<and> stdout w' = stdout w @ [Call name args]
         \<and> (\<forall>e. r = Inl e \<longrightarrow> library_raised env e w')"
  using assms
  by (auto simp: call_def emit_def library_raised_def split: option.splits)

subsection \<open>display_data of src/ml_procedural.py\<close>

lemma ml_display_data_numeric:
  assumes "stdin w = line # rest" and "builtin_int env line = Some n"
  shows "ml_display_data env data w =
           (Inr (), emit (PrintRows (head data (min n 200)))
                      (after_input ''How many rows would you like to print? (up to 200): ''
                         line rest w))"
  using assms by (simp add: ml_display_data_def io_defs min_def)

lemma ml_display_data_invalid:
  assumes "stdin w = line # rest" and "builtin_int env line = None"
  shows "ml_display_data env data w =
           (Inr (), emit (Print ''Please enter a valid number.'')
                      (after_input ''How many rows would you like to print? (up to 200): ''
                         line rest w))"
  using assms by (simp add: ml_display_data_def io_defs)

lemma ml_display_data_eof:
  assumes "stdin w = []"
  shows "ml_display_data env data w =
           (Inl EOFError,
            emit (InputEOF ''How many rows would you like to print? (up to 200): '') w)"
  using assms by (simp add: ml_display_data_def io_defs)

lemma head_nonneg: "0 \<le> n \<Longrightarrow> head data n = take (nat n) data"
  by (simp add: head_def)

text \<open>
  For an input that is not negative the rows printed are the first \<open>min(n, 200)\<close> rows of
  the frame, so at most 200.
\<close>

lemma ml_display_data_clamps:
  assumes "stdin w = line # rest" and "builtin_int env line = Some n" and "0 \<le> n"
  shows "ml_display_data env data w =
       (Inr (), emit (PrintRows (take (nat (min n 200)) data))
                  (after_input ''How many rows would you like to print? (up to 200): ''
                     line rest w))"
    and "length (take (nat (min n 200)) data) \<le> 200"
proof -
  from assms(3) have "0 \<le> min n 200" by simp
  then have h: "head data (min n 200) = take (nat (min n 200)) data" by (rule head_nonneg)
  show "ml_display_data env data w =
       (Inr (), emit (PrintRows (take (nat (min n 200)) data))
                  (after_input ''How many rows would you like to print? (up to 200): ''
                     line rest w))"
    using ml_display_data_numeric[OF assms(1,2), of data] by (simp add: h)
  have "nat (min n 200) \<le> 200" by simp
  then show "length (take (nat (min n 200)) data) \<le> 200" by simp
qed

text \<open>
  Claim C9. For every valid numeric row count, \<open>display_data\<close> of src/ml_procedural.py
  is claimed to print at most 200 rows, as its prompt says. The count is bounded from
  above only: on the line \<open>-1\<close>, which \<open>int\<close> accepts, and a frame of 202 rows it prints
  the 201 rows of \<open>data.head(-1)\<close>.
\<close>

theorem ml_display_data_negative_count:
  "py_int ''-1'' = Some (- 1)
   \<and> ml_display_data sample_env frame202 (console [''-1'']) =
     (Inr (), \<lparr>stdin = [],
               stdout = [Input ''How many rows would you like to print? (up to 200): '' ''-1'',
                         PrintRows (replicate 201 ''row'')]\<rparr>)
   \<and> length (replicate 201 ''row'') = 201"
proof (intro conjI)
  show p: "py_int ''-1'' = Some (- 1)"
    by (simp add: py_int_def strip_def is_space_def is_digit_def digits_value_def
          digits_int_def unicode_space_to_ascii_def)
  have "builtin_int sample_env ''-1'' = Some (- 1)"
    by (simp add: sample_env_def p)
  then have "ml_display_data sample_env frame202 (console [''-1'']) =
           (Inr (), emit (PrintRows (head frame202 (min (- 1) 200)))
                      (after_input ''How many rows would you like to print? (up to 200): ''
                         ''-1'' [] (console [''-1''])))"
    by (intro ml_display_data_numeric) (simp_all add: console_def)
  then show "ml_display_data sample_env frame202 (console [''-1'']) =
     (Inr (), \<lparr>stdin = [],
               stdout = [Input ''How many rows would you like to print? (up to 200): '' ''-1'',
                         PrintRows (replicate 201 ''row'')]\<rparr>)"
    by (simp add: console_def after_input_def emit_def head_def frame202_def)
  show "length (replicate 201 ''row'') = 201" by simp
qed


subsection \<open>The menu loop of src/shree.py\<close>

lemma chart_menu_facts:
  "chart_menu env w = (r, w') \<Longrightarrow>
     length (stdin w') \<le> length (stdin w)
     \<and> (\<exists>more. stdout w' = stdout w @ more)
     \<and> (\<forall>e. r = Inl e \<longrightarrow> (e = EOFError \<and> stdin w' = []) \<or> library_raised env e w')"
  by (auto simp: chart_menu_def io_defs call_def show_chart_for_type_def library_raised_def
           split: list.splits if_splits option.splits)

lemma run_analysis_facts:
  "run_analysis env w = (r, w') \<Longrightarrow>
     length (stdin w') \<le> length (stdin w)
     \<and> (\<exists>more. stdout w' = stdout w @ more)
     \<and> (\<forall>e. r = Inl e \<longrightarrow> (e = EOFError \<and> stdin w' = []) \<or> library_raised env e w')"
  using call_facts[of env "''run_analysis''" "[]" w r w'] by (simp add: run_analysis_def)

lemma shree_body_eof:
  "stdin w = [] \<Longrightarrow> shree_menu_body env w = (Inl EOFError, menu_eof shree_display w)"
  by (simp add: shree_menu_body_def io_defs menu_defs)

lemma shree_body_read:
  "stdin w = c # rest \<Longrightarrow>
   shree_menu_body env w =
     (if c = ''1'' then and_then (run_analysis env (menu_read shree_display c rest w))
      else if c = ''2'' then and_then (chart_menu env (menu_read shree_display c rest w))
      else if c = ''3'' then (Inr Break, menu_read shree_display c rest w)
      else (Inr Continue, emit (Print ''Invalid choice. Please try again.'')
                            (menu_read shree_display c rest w)))"
  by (simp add: shree_menu_body_def and_then_def io_bind_def io_seq_def io_return_def
        py_print_def py_input_def emit_def menu_defs split: prod.splits sum.splits)

lemma shree_loop_eof:
  "stdin w = [] \<Longrightarrow> shree_menu env w = Some (Inl EOFError, menu_eof shree_display w)"
  by (subst shree_menu.simps) (simp add: shree_body_eof)

lemma shree_loop_1:
  "stdin w = ''1'' # rest \<Longrightarrow>
   shree_menu env w =
     (case run_analysis env (menu_read shree_display ''1'' rest w) of
        (Inl e, w') \<Rightarrow> Some (Inl e, w') | (Inr u, w') \<Rightarrow> shree_menu env w')"
  by (subst shree_menu.simps)
     (simp add: shree_body_read and_then_def split: prod.splits sum.splits)

lemma shree_loop_2:
  "stdin w = ''2'' # rest \<Longrightarrow>
   shree_menu env w =
     (case chart_menu env (menu_read shree_display ''2'' rest w) of
        (Inl e, w') \<Rightarrow> Some (Inl e, w') | (Inr u, w') \<Rightarrow> shree_menu env w')"
  by (subst shree_menu.simps)
     (simp add: shree_body_read and_then_def split: prod.splits sum.splits)

lemma shree_loop_3:
  "stdin w = ''3'' # rest \<Longrightarrow>
   shree_menu env w = Some (Inr (), menu_read shree_display ''3'' rest w)"
  by (subst shree_menu.simps) (simp add: shree_body_read)

lemma shree_loop_other:
  "stdin w = c # rest \<Longrightarrow> c \<noteq> ''1'' \<Longrightarrow> c \<noteq> ''2'' \<Longrightarrow> c \<noteq> ''3'' \<Longrightarrow>
   shree_menu env w = shree_menu env (emit (Print ''Invalid choice. Please try again.'')
                                (menu_read shree_display c rest w))"
  by (subst shree_menu.simps) (simp add: shree_body_read)

lemma shree_menu_result:
  "\<exists>r w'. shree_menu env w = Some (r, w')
      \<and> (\<exists>more. stdout w' = stdout w @ shree_display @ more)
      \<and> (r = Inr () \<longrightarrow> (\<exists>pre. stdout w' = pre @ [Input ''Enter your choice: '' ''3'']))
      \<and> (\<forall>e. r = Inl e \<longrightarrow> (e = EOFError \<and> stdin w' = []) \<or> library_raised env e w')"
  (is "?P w")
proof (induction "length (stdin w)" arbitrary: w rule: less_induct)
  case less
  show ?case
  proof (cases "stdin w")
    case Nil
    then show ?thesis by (simp add: shree_loop_eof menu_read_simps)
  next
    case (Cons c rest)
    let ?w1 = "menu_read shree_display c rest w"
    have continue: "?P w"
      if eq: "shree_menu env w = shree_menu env w2"
        and shorter: "length (stdin w2) < length (stdin w)"
        and grows: "\<exists>more. stdout w2 = stdout w @ shree_display @ more" for w2
    proof -
      from less[OF shorter] obtain r w' where
        r: "shree_menu env w2 = Some (r, w')"
           "\<exists>more. stdout w' = stdout w2 @ shree_display @ more"
           "r = Inr () \<longrightarrow> (\<exists>pre. stdout w' = pre @ [Input ''Enter your choice: '' ''3''])"
           "\<forall>e. r = Inl e \<longrightarrow> (e = EOFError \<and> stdin w' = []) \<or> library_raised env e w'"
        by blast
      from r(2) grows have "\<exists>more. stdout w' = stdout w @ shree_display @ more" by auto
      with r(1,3,4) eq show ?thesis by simp
    qed
    have sub: "?P w"
      if loop: "shree_menu env w =
                  (case m ?w1 of (Inl e, w') \<Rightarrow> Some (Inl e, w')
                               | (Inr u, w') \<Rightarrow> shree_menu env w')"
        and facts: "\<And>r w'. m ?w1 = (r, w') \<Longrightarrow>
              length (stdin w') \<le> length (stdin ?w1)
              \<and> (\<exists>more. stdout w' = stdout ?w1 @ more)
              \<and> (\<forall>e. r = Inl e \<longrightarrow>
                    (e = EOFError \<and> stdin w' = []) \<or> library_raised env e w')"
      for m :: "unit io"
    proof -
      obtain r1 w2 where c: "m ?w1 = (r1, w2)" by (cases "m ?w1")
      note f = facts[OF c]
      show ?thesis
      proof (cases r1)
        case (Inl e)
        then have "shree_menu env w = Some (Inl e, w2)"
          using c loop by simp
        then show ?thesis using f Inl by (auto simp: menu_read_simps)
      next
        case (Inr u)
        then have eq: "shree_menu env w = shree_menu env w2"
          using c loop by simp
        show ?thesis
          using f by (intro continue[OF eq]) (auto simp: Cons menu_read_simps)
      qed
    qed
    consider "c = ''1''" | "c = ''2''" | "c = ''3''"
      | "c \<noteq> ''1''" "c \<noteq> ''2''" "c \<noteq> ''3''" by blast
    then show ?thesis
    proof cases
      case 1
      have loop: "shree_menu env w =
                  (case run_analysis env ?w1 of (Inl e, w') \<Rightarrow> Some (Inl e, w')
                               | (Inr u, w') \<Rightarrow> shree_menu env w')"
        using Cons 1 by (simp add: shree_loop_1)
      show ?thesis
        by (rule sub[of "run_analysis env", OF loop]) (use run_analysis_facts in blast)
    next
      case 2
      have loop: "shree_menu env w =
                  (case chart_menu env ?w1 of (Inl e, w') \<Rightarrow> Some (Inl e, w')
                               | (Inr u, w') \<Rightarrow> shree_menu env w')"
        using Cons 2 by (simp add: shree_loop_2)
      show ?thesis
        by (rule sub[of "chart_menu env", OF loop]) (use chart_menu_facts in blast)
    next
      case 3
      then show ?thesis using Cons by (simp add: shree_loop_3 menu_read_simps)
    next
      case 4
      have eq: "shree_menu env w = shree_menu env (emit (Print ''Invalid choice. Please try again.'')
                                             (menu_read shree_display c rest w))"
        using Cons 4 by (simp add: shree_loop_other)
      show ?thesis
        by (rule continue[OF eq]) (simp_all add: Cons menu_read_simps)
    qed
  qed
qed


subsection \<open>The menu loop of src/analyiz.py\<close>

lemma analyiz_display_data_numeric:
  assumes "stdin w = line # rest" and "builtin_int env line = Some n"
  shows "analyiz_display_data env data w =
           (Inr (), emit (PrintRows (head data n))
                      (after_input ''How many rows of data do you wish to print? ''
                         line rest w))"
  using assms by (simp add: analyiz_display_data_def io_defs)

lemma analyiz_display_data_invalid:
  assumes "stdin w = line # rest" and "builtin_int env line = None"
  shows "analyiz_display_data env data w =
           (Inl ValueError,
            after_input ''How many rows of data do you wish to print? '' line rest w)"
  using assms by (simp add: analyiz_display_data_def io_defs)

lemma analyiz_display_data_eof:
  assumes "stdin w = []"
  shows "analyiz_display_data env data w =
           (Inl EOFError, emit (InputEOF ''How many rows of data do you wish to print? '') w)"
  using assms by (simp add: analyiz_display_data_def io_defs)

lemma py4_display_data_invalid:
  assumes "stdin w = line # rest" and "builtin_int env line = None"
  shows "py4_display_data env data w =
           (Inl ValueError,
            after_input ''How many rows of data would you like to print? '' line rest w)"
  using assms by (simp add: py4_display_data_def io_defs)

lemma analyiz_display_data_facts:
  assumes "analyiz_display_data env data w = (r, w')"
  shows "length (stdin w') \<le> length (stdin w)
     \<and> (\<exists>more. stdout w' = stdout w @ more)
     \<and> (\<forall>e. r = Inl e \<longrightarrow>
           (e = EOFError \<and> stdin w' = [])
           \<or> (e = ValueError
              \<and> (\<exists>line. stdout w' =
                    stdout w @ [Input ''How many rows of data do you wish to print? '' line]
                    \<and> builtin_int env line = None)))"
proof (cases "stdin w")
  case Nil
  then show ?thesis using assms by (auto simp: analyiz_display_data_eof emit_def)
next
  case (Cons line rest)
  show ?thesis
  proof (cases "builtin_int env line")
    case None
    then show ?thesis
      using assms Cons by (auto simp: analyiz_display_data_invalid after_input_def)
  next
    case (Some n)
    then show ?thesis
      using assms Cons by (auto simp: analyiz_display_data_numeric after_input_def emit_def)
  qed
qed

lemma analyiz_choose_algorithm_facts:
  "analyiz_choose_algorithm env w = (r, w') \<Longrightarrow>
     length (stdin w') \<le> length (stdin w)
     \<and> (\<exists>more. stdout w' = stdout w @ more)
     \<and> (\<forall>e. r = Inl e \<longrightarrow> (e = EOFError \<and> stdin w' = []) \<or> library_raised env e w')"
  by (auto simp: analyiz_choose_algorithm_def io_defs call_def library_raised_def
           split: list.splits if_splits option.splits)

lemma analyiz_compare_two_facts:
  "analyiz_compare_two env w = (r, w') \<Longrightarrow>
     length (stdin w') \<le> length (stdin w)
     \<and> (\<exists>more. stdout w' = stdout w @ more)
     \<and> (\<forall>e. r = Inl e \<longrightarrow> (e = EOFError \<and> stdin w' = []) \<or> library_raised env e w')"
  by (auto simp: analyiz_compare_two_def io_defs call_def library_raised_def
           split: list.splits if_splits option.splits)

lemma compare_all_facts:
  "call env ''compare_all_algorithms'' [] w = (r, w') \<Longrightarrow>
     length (stdin w') \<le> length (stdin w)
     \<and> (\<exists>more. stdout w' = stdout w @ more)
     \<and> (\<forall>e. r = Inl e \<longrightarrow> (e = EOFError \<and> stdin w' = []) \<or> library_raised env e w')"
  using call_facts[of env "''compare_all_algorithms''" "[]" w r w'] by simp

lemma analyiz_body_eof:
  "stdin w = [] \<Longrightarrow>
   analyiz_menu_body env data w = (Inl EOFError, menu_eof main_menu_display w)"
  by (simp add: analyiz_menu_body_def io_defs menu_defs)

lemma analyiz_body_read:
  "stdin w = c # rest \<Longrightarrow>
   analyiz_menu_body env data w =
     (if c = ''1'' then
        and_then (analyiz_display_data env data (menu_read main_menu_display c rest w))
      else if c = ''2'' then
        and_then (analyiz_choose_algorithm env (menu_read main_menu_display c rest w))
      else if c = ''3'' then
        and_then (analyiz_compare_two env (menu_read main_menu_display c rest w))
      else if c = ''4'' then
        and_then (call env ''compare_all_algorithms'' [] (menu_read main_menu_display c rest w))
      else if c = ''5'' then (Inr Break, menu_read main_menu_display c rest w)
      else (Inr Continue, emit (Print ''Invalid choice.'') (menu_read main_menu_display c rest w)))"
  by (simp add: analyiz_menu_body_def and_then_def io_bind_def io_seq_def io_return_def
        py_print_def py_input_def emit_def menu_defs split: prod.splits sum.splits)

lemma analyiz_loop_eof:
  "stdin w = [] \<Longrightarrow>
   analyiz_menu env data w = Some (Inl EOFError, menu_eof main_menu_display w)"
  by (subst analyiz_menu.simps) (simp add: analyiz_body_eof)

lemma analyiz_loop_1:
  "stdin w = ''1'' # rest \<Longrightarrow>
   analyiz_menu env data w =
     (case analyiz_display_data env data (menu_read main_menu_display ''1'' rest w) of
        (Inl e, w') \<Rightarrow> Some (Inl e, w') | (Inr u, w') \<Rightarrow> analyiz_menu env data w')"
  by (subst analyiz_menu.simps)
     (simp add: analyiz_body_read and_then_def split: prod.splits sum.splits)

lemma analyiz_loop_2:
  "stdin w = ''2'' # rest \<Longrightarrow>
   analyiz_menu env data w =
     (case analyiz_choose_algorithm env (menu_read main_menu_display ''2'' rest w) of
        (Inl e, w') \<Rightarrow> Some (Inl e, w') | (Inr u, w') \<Rightarrow> analyiz_menu env data w')"
  by (subst analyiz_menu.simps)
     (simp add: analyiz_body_read and_then_def split: prod.splits sum.splits)

lemma analyiz_loop_3:
  "stdin w = ''3'' # rest \<Longrightarrow>
   analyiz_menu env data w =
     (case analyiz_compare_two env (menu_read main_menu_display ''3'' rest w) of
        (Inl e, w') \<Rightarrow> Some (Inl e, w') | (Inr u, w') \<Rightarrow> analyiz_menu env data w')"
  by (subst analyiz_menu.simps)
     (simp add: analyiz_body_read and_then_def split: prod.splits sum.splits)

lemma analyiz_loop_4:
  "stdin w = ''4'' # rest \<Longrightarrow>
   analyiz_menu env data w =
     (case call env ''compare_all_algorithms'' [] (menu_read main_menu_display ''4'' rest w) of
        (Inl e, w') \<Rightarrow> Some (Inl e, w') | (Inr u, w') \<Rightarrow> analyiz_menu env data w')"
  by (subst analyiz_menu.simps)
     (simp add: analyiz_body_read and_then_def split: prod.splits sum.splits)

lemma analyiz_loop_5:
  "stdin w = ''5'' # rest \<Longrightarrow>
   analyiz_menu env data w = Some (Inr (), menu_read main_menu_display ''5'' rest w)"
  by (subst analyiz_menu.simps) (simp add: analyiz_body_read)

lemma analyiz_loop_other:
  "stdin w = c # rest \<Longrightarrow> c \<notin> {''1'', ''2'', ''3'', ''4'', ''5''} \<Longrightarrow>
   analyiz_menu env data w =
     analyiz_menu env data
       (emit (Print ''Invalid choice.'') (menu_read main_menu_display c rest w))"
  by (subst analyiz_menu.simps) (simp add: analyiz_body_read)

lemma analyiz_menu_result:
  "\<exists>r w'. analyiz_menu env data w = Some (r, w')
      \<and> (\<exists>more. stdout w' = stdout w @ main_menu_display @ more)
      \<and> (r = Inr () \<longrightarrow> (\<exists>pre. stdout w' = pre @ [Input ''Enter your choice: '' ''5'']))
      \<and> (\<forall>e. r = Inl e \<longrightarrow>
            (e = EOFError \<and> stdin w' = [])
            \<or> (e = ValueError
               \<and> (\<exists>pre line. stdout w' =
                     pre @ [Input ''Enter your choice: '' ''1'',
                            Input ''How many rows of data do you wish to print? '' line]
                     \<and> builtin_int env line = None))
            \<or> library_raised env e w')"
  (is "?P w")
proof (induction "length (stdin w)" arbitrary: w rule: less_induct)
  case less
  show ?case
  proof (cases "stdin w")
    case Nil
    then show ?thesis by (simp add: analyiz_loop_eof menu_read_simps)
  next
    case (Cons c rest)
    let ?w1 = "menu_read main_menu_display c rest w"
    have continue: "?P w"
      if eq: "analyiz_menu env data w = analyiz_menu env data w2"
        and shorter: "length (stdin w2) < length (stdin w)"
        and grows: "\<exists>more. stdout w2 = stdout w @ main_menu_display @ more" for w2
    proof -
      from less[OF shorter] obtain r w' where
        r: "analyiz_menu env data w2 = Some (r, w')"
           "\<exists>more. stdout w' = stdout w2 @ main_menu_display @ more"
           "r = Inr () \<longrightarrow> (\<exists>pre. stdout w' = pre @ [Input ''Enter your choice: '' ''5''])"
           "\<forall>e. r = Inl e \<longrightarrow>
              (e = EOFError \<and> stdin w' = [])
              \<or> (e = ValueError
                 \<and> (\<exists>pre line. stdout w' =
                       pre @ [Input ''Enter your choice: '' ''1'',
                              Input ''How many rows of data do you wish to print? '' line]
                       \<and> builtin_int env line = None))
              \<or> library_raised env e w'"
        by blast
      from r(2) grows have "\<exists>more. stdout w' = stdout w @ main_menu_display @ more" by auto
      with r(1,3,4) eq show ?thesis by simp
    qed
    have sub: "?P w"
      if loop: "analyiz_menu env data w =
                  (case m ?w1 of (Inl e, w') \<Rightarrow> Some (Inl e, w')
                               | (Inr u, w') \<Rightarrow> analyiz_menu env data w')"
        and facts: "\<And>r w'. m ?w1 = (r, w') \<Longrightarrow>
              length (stdin w') \<le> length (stdin ?w1)
              \<and> (\<exists>more. stdout w' = stdout ?w1 @ more)
              \<and> (\<forall>e. r = Inl e \<longrightarrow>
                    (e = EOFError \<and> stdin w' = [])
                    \<or> (e = ValueError
                       \<and> (\<exists>pre line. stdout w' =
                             pre @ [Input ''Enter your choice: '' ''1'',
                                    Input ''How many rows of data do you wish to print? '' line]
                             \<and> builtin_int env line = None))
                    \<or> library_raised env e w')"
      for m :: "unit io"
    proof -
      obtain r1 w2 where c: "m ?w1 = (r1, w2)" by (cases "m ?w1")
      note f = facts[OF c]
      show ?thesis
      proof (cases r1)
        case (Inl e)
        then have "analyiz_menu env data w = Some (Inl e, w2)"
          using c loop by simp
        then show ?thesis using f Inl by (auto simp: menu_read_simps)
      next
        case (Inr u)
        then have eq: "analyiz_menu env data w = analyiz_menu env data w2"
          using c loop by simp
        show ?thesis
          using f by (intro continue[OF eq]) (auto simp: Cons menu_read_simps)
      qed
    qed
    consider "c = ''1''" | "c = ''2''" | "c = ''3''" | "c = ''4''" | "c = ''5''"
      | "c \<notin> {''1'', ''2'', ''3'', ''4'', ''5''}" by blast
    then show ?thesis
    proof cases
      case 1
      have loop: "analyiz_menu env data w =
                  (case analyiz_display_data env data ?w1 of (Inl e, w') \<Rightarrow> Some (Inl e, w')
                               | (Inr u, w') \<Rightarrow> analyiz_menu env data w')"
        using Cons 1 by (simp add: analyiz_loop_1)
      show ?thesis
      proof (rule sub[of "analyiz_display_data env data", OF loop])
        fix r w' assume "analyiz_display_data env data ?w1 = (r, w')"
        from analyiz_display_data_facts[OF this] show
          "length (stdin w') \<le> length (stdin ?w1)
              \<and> (\<exists>more. stdout w' = stdout ?w1 @ more)
              \<and> (\<forall>e. r = Inl e \<longrightarrow>
                    (e = EOFError \<and> stdin w' = [])
                    \<or> (e = ValueError
                       \<and> (\<exists>pre line. stdout w' =
                             pre @ [Input ''Enter your choice: '' ''1'',
                                    Input ''How many rows of data do you wish to print? '' line]
                             \<and> builtin_int env line = None))
                    \<or> library_raised env e w')"
          using 1 by (auto simp: menu_read_simps)
      qed
    next
      case 2
      have loop: "analyiz_menu env data w =
                  (case analyiz_choose_algorithm env ?w1 of (Inl e, w') \<Rightarrow> Some (Inl e, w')
                               | (Inr u, w') \<Rightarrow> analyiz_menu env data w')"
        using Cons 2 by (simp add: analyiz_loop_2)
      show ?thesis
        by (rule sub[of "analyiz_choose_algorithm env", OF loop])
           (use analyiz_choose_algorithm_facts in blast)
    next
      case 3
      have loop: "analyiz_menu env data w =
                  (case analyiz_compare_two env ?w1 of (Inl e, w') \<Rightarrow> Some (Inl e, w')
                               | (Inr u, w') \<Rightarrow> analyiz_menu env data w')"
        using Cons 3 by (simp add: analyiz_loop_3)
      show ?thesis
        by (rule sub[of "analyiz_compare_two env", OF loop])
           (use analyiz_compare_two_facts in blast)
    next
      case 4
      have loop: "analyiz_menu env data w =
                  (case call env ''compare_all_algorithms'' [] ?w1 of
                     (Inl e, w') \<Rightarrow> Some (Inl e, w')
                   | (Inr u, w') \<Rightarrow> analyiz_menu env data w')"
        using Cons 4 by (simp add: analyiz_loop_4)
      show ?thesis
        by (rule sub[of "call env ''compare_all_algorithms'' []", OF loop])
           (use compare_all_facts in blast)
    next
      case 5
      then show ?thesis using Cons by (simp add: analyiz_loop_5 menu_read_simps)
    next
      case 6
      have eq: "analyiz_menu env data w =
                analyiz_menu env data (emit (Print ''Invalid choice.'')
                                     (menu_read main_menu_display c rest w))"
        using Cons 6 by (rule analyiz_loop_other)
      show ?thesis
        by (rule continue[OF eq]) (simp_all add: Cons menu_read_simps)
    qed
  qed
qed


subsection \<open>The menu loop of src/ml_procedural.py\<close>

lemma ml_display_data_no_ValueError: "fst (ml_display_data env data w) \<noteq> Inl ValueError"
proof (cases "stdin w")
  case Nil
  then show ?thesis by (simp add: ml_display_data_eof)
next
  case (Cons line rest)
  then show ?thesis
    by (cases "builtin_int env line")
       (simp_all add: ml_display_data_invalid ml_display_data_numeric)
qed

lemma ml_body_invalid:
  "stdin w = line # rest \<Longrightarrow> builtin_int env line = None \<Longrightarrow>
   ml_menu_body env data w = (Inl ValueError, menu_read main_menu_display line rest w)"
  by (simp add: ml_menu_body_def io_defs menu_defs)

lemma ml_body_1:
  "stdin w = line # rest \<Longrightarrow> builtin_int env line = Some 1 \<Longrightarrow>
   ml_menu_body env data w =
     and_then (ml_display_data env data (menu_read main_menu_display line rest w))"
  by (simp add: ml_menu_body_def and_then_def io_bind_def io_seq_def io_return_def
        py_print_def py_input_def int_of_input_def emit_def menu_defs
      split: prod.splits sum.splits)

lemma ml_loop_invalid:
  "stdin w = line # rest \<Longrightarrow> builtin_int env line = None \<Longrightarrow>
   ml_menu env data w = Some (Inl ValueError, menu_read main_menu_display line rest w)"
  by (subst ml_menu.simps) (simp add: ml_body_invalid)

lemma ml_loop_1_invalid:
  assumes "stdin w = c # line # rest" and "builtin_int env c = Some 1"
    and "builtin_int env line = None"
  shows "ml_menu env data w =
         ml_menu env data
           (emit (Print ''Please enter a valid number.'')
              (after_input ''How many rows would you like to print? (up to 200): '' line rest
                 (menu_read main_menu_display c (line # rest) w)))"
proof -
  have "stdin (menu_read main_menu_display c (line # rest) w) = line # rest"
    by (simp add: menu_read_simps)
  then have "ml_display_data env data (menu_read main_menu_display c (line # rest) w) =
        (Inr (), emit (Print ''Please enter a valid number.'')
              (after_input ''How many rows would you like to print? (up to 200): '' line rest
                 (menu_read main_menu_display c (line # rest) w)))"
    using assms(3) by (rule ml_display_data_invalid)
  then show ?thesis
    using assms(1,2) by (subst ml_menu.simps) (simp add: ml_body_1 and_then_def)
qed

lemma ml_compare_two_invalid:
  "stdin w = line # rest \<Longrightarrow> builtin_int env line = None \<Longrightarrow>
   ml_compare_two_algorithms env w =
     (Inl ValueError,
      after_input ''Choose the first algorithm to compare: '' line rest
        (emit (Print (''1. Linear Regression'' @ CHR 0x0A # ''2. KNN'')) w))"
  by (simp add: ml_compare_two_algorithms_def io_defs)

lemma analyiz_loop_1_invalid:
  assumes "stdin w = ''1'' # line # rest" and "builtin_int env line = None"
  shows "analyiz_menu env data w =
         Some (Inl ValueError,
               after_input ''How many rows of data do you wish to print? '' line rest
                 (menu_read main_menu_display ''1'' (line # rest) w))"
proof -
  have "stdin (menu_read main_menu_display ''1'' (line # rest) w) = line # rest"
    by (simp add: menu_read_simps)
  then have "analyiz_display_data env data (menu_read main_menu_display ''1'' (line # rest) w) =
        (Inl ValueError,
               after_input ''How many rows of data do you wish to print? '' line rest
                 (menu_read main_menu_display ''1'' (line # rest) w))"
    using assms(2) by (rule analyiz_display_data_invalid)
  then show ?thesis
    using assms(1) by (simp add: analyiz_loop_1)
qed

text \<open>
  Claim C2, as amended. The numeric parse in \<open>display_data\<close> of src/ml_procedural.py
  is inside a handler for ValueError: on a line that \<open>int\<close> rejects it prints a message
  and returns, it never raises ValueError, and the menu loop goes on. The numeric parse in
  \<open>display_data\<close> of src/analyiz.py and of src/4.py has no handler in the function: on
  such a line ValueError leaves \<open>display_data\<close>, and in src/analyiz.py the menu loop
  with it.
\<close>

theorem value_error_handling:
  "(stdin w = line # rest \<and> builtin_int env line = None \<longrightarrow>
      ml_display_data env data w =
        (Inr (), emit (Print ''Please enter a valid number.'')
                   (after_input ''How many rows would you like to print? (up to 200): ''
                      line rest w)))
   \<and> fst (ml_display_data env data w) \<noteq> Inl ValueError
   \<and> (stdin w = c # line # rest \<and> builtin_int env c = Some 1
        \<and> builtin_int env line = None \<longrightarrow>
      ml_menu env data w =
        ml_menu env data
          (emit (Print ''Please enter a valid number.'')
             (after_input ''How many rows would you like to print? (up to 200): '' line rest
                (menu_read main_menu_display c (line # rest) w))))
   \<and> (stdin w = line # rest \<and> builtin_int env line = None \<longrightarrow>
      analyiz_display_data env data w =
        (Inl ValueError,
         after_input ''How many rows of data do you wish to print? '' line rest w))
   \<and> (stdin w = ''1'' # line # rest \<and> builtin_int env line = None \<longrightarrow>
      analyiz_menu env data w =
        Some (Inl ValueError,
              after_input ''How many rows of data do you wish to print? '' line rest
                (menu_read main_menu_display ''1'' (line # rest) w)))
   \<and> (stdin w = line # rest \<and> builtin_int env line = None \<longrightarrow>
      py4_display_data env data w =
        (Inl ValueError,
         after_input ''How many rows of data would you like to print? '' line rest w))"
proof (intro conjI impI)
  show "fst (ml_display_data env data w) \<noteq> Inl ValueError"
    by (rule ml_display_data_no_ValueError)
next
  assume "stdin w = c # line # rest \<and> builtin_int env c = Some 1
            \<and> builtin_int env line = None"
  then show "ml_menu env data w =
        ml_menu env data
          (emit (Print ''Please enter a valid number.'')
             (after_input ''How many rows would you like to print? (up to 200): '' line rest
                (menu_read main_menu_display c (line # rest) w)))"
    by (intro ml_loop_1_invalid) simp_all
next
  assume "stdin w = ''1'' # line # rest \<and> builtin_int env line = None"
  then show "analyiz_menu env data w =
        Some (Inl ValueError,
              after_input ''How many rows of data do you wish to print? '' line rest
                (menu_read main_menu_display ''1'' (line # rest) w))"
    by (intro analyiz_loop_1_invalid) simp_all
qed (simp_all add: ml_display_data_invalid analyiz_display_data_invalid
       py4_display_data_invalid)

lemma py_int_abc: "py_int ''abc'' = None"
  by (simp add: py_int_def strip_def is_space_def is_digit_def digits_int_def
        unicode_space_to_ascii_def)

lemma py_int_1: "py_int ''1'' = Some 1"
  by (simp add: py_int_def strip_def is_space_def is_digit_def digits_value_def
        digits_int_def unicode_space_to_ascii_def)

theorem value_error_handling_witness:
  "py4_display_data sample_env frame10 (console [''abc'']) =
     (Inl ValueError,
      \<lparr>stdin = [],
       stdout = [Input ''How many rows of data would you like to print? '' ''abc'']\<rparr>)
   \<and> ml_display_data sample_env frame10 (console [''abc'']) =
     (Inr (), \<lparr>stdin = [],
               stdout = [Input ''How many rows would you like to print? (up to 200): '' ''abc'',
                         Print ''Please enter a valid number.'']\<rparr>)
   \<and> analyiz_display_data sample_env frame10 (console [''abc'']) =
     (Inl ValueError,
      \<lparr>stdin = [],
       stdout = [Input ''How many rows of data do you wish to print? '' ''abc'']\<rparr>)
   \<and> analyiz_menu sample_env frame10 (console [''1'', ''abc'', ''5'']) =
     Some (Inl ValueError,
           \<lparr>stdin = [''5''],
            stdout = main_menu_display
                     @ [Input ''Enter your choice: '' ''1'',
                        Input ''How many rows of data do you wish to print? '' ''abc'']\<rparr>)
   \<and> ml_menu sample_env frame10 (console [''1'', ''abc'', ''5'']) =
     Some (Inr (),
           \<lparr>stdin = [],
            stdout = main_menu_display
                     @ [Input ''Enter your choice: '' ''1'',
                        Input ''How many rows would you like to print? (up to 200): '' ''abc'',
                        Print ''Please enter a valid number.'']
                     @ main_menu_display
                     @ [Input ''Enter your choice: '' ''5'', Print ''Exiting program.'']\<rparr>)"
proof -
  have run: "ml_menu sample_env frame10
          (emit (Print ''Please enter a valid number.'')
             (after_input ''How many rows would you like to print? (up to 200): '' ''abc''
                [''5'']
                (menu_read main_menu_display ''1'' (''abc'' # [''5''])
                   (console [''1'', ''abc'', ''5''])))) =
     Some (Inr (),
           \<lparr>stdin = [],
            stdout = main_menu_display
                     @ [Input ''Enter your choice: '' ''1'',
                        Input ''How many rows would you like to print? (up to 200): '' ''abc'',
                        Print ''Please enter a valid number.'']
                     @ main_menu_display
                     @ [Input ''Enter your choice: '' ''5'', Print ''Exiting program.'']\<rparr>)"
    by code_simp
  have b: "builtin_int sample_env ''abc'' = None" "builtin_int sample_env ''1'' = Some 1"
    by (simp_all add: sample_env_def py_int_abc py_int_1)
  show ?thesis
    using value_error_handling
            [of "console [''abc'']" "''abc''" "[]" sample_env frame10 "''1''"]
          value_error_handling
            [of "console [''1'', ''abc'', ''5'']" "''abc''" "[''5'']" sample_env frame10 "''1''"]
    by (simp add: b run)
       (simp add: console_def after_input_def emit_def menu_read_def)
qed

theorem value_error_counterexample:
  "ml_menu sample_env frame10 (console [''five'', ''5'']) =
     Some (Inl ValueError,
           \<lparr>stdin = [''5''],
            stdout = main_menu_display @ [Input ''Enter your choice: '' ''five'']\<rparr>)
   \<and> analyiz_display_data sample_env frame10 (console [''ten'']) =
     (Inl ValueError,
      \<lparr>stdin = [],
       stdout = [Input ''How many rows of data do you wish to print? '' ''ten'']\<rparr>)"
  by code_simp


subsection \<open>How the menu loops end\<close>

text \<open>
  Claim C8, as amended. On every finite sequence of input lines the menu loops of
  src/shree.py and src/analyiz.py end, after displaying the menu at least once. A loop
  returns only when the exit choice (\<open>'3'\<close>, \<open>'5'\<close>) is read at the menu prompt, which
  is then the last event. Otherwise a loop ends only by an exception: EOFError at the
  end of the input; an exception raised by the library-backed function that the choice
  dispatched to, whose call is then the last event; and, in src/analyiz.py, the
  ValueError of \<open>display_data\<close> when the choice \<open>'1'\<close> is followed by a line that \<open>int\<close>
  rejects. Every recognised choice runs its function and, unless that raises, the loop
  goes on; every other choice prints the invalid-choice message and the loop goes on,
  displaying the menu again.
\<close>

theorem menu_loop_ends_by_exit_or_exception:
  "(\<exists>r w'. shree_menu env w = Some (r, w')
      \<and> (\<exists>more. stdout w' = stdout w @ shree_display @ more)
      \<and> (r = Inr () \<longrightarrow> (\<exists>pre. stdout w' = pre @ [Input ''Enter your choice: '' ''3'']))
      \<and> (\<forall>e. r = Inl e \<longrightarrow>
            (e = EOFError \<and> stdin w' = [])
            \<or> (\<exists>before name args. stdout w' = before @ [Call name args]
                  \<and> library_raises env before name args = Some e)))
   \<and> (\<exists>r w'. analyiz_menu env data w = Some (r, w')
      \<and> (\<exists>more. stdout w' = stdout w @ main_menu_display @ more)
      \<and> (r = Inr () \<longrightarrow> (\<exists>pre. stdout w' = pre @ [Input ''Enter your choice: '' ''5'']))
      \<and> (\<forall>e. r = Inl e \<longrightarrow>
            (e = EOFError \<and> stdin w' = [])
            \<or> (e = ValueError
               \<and> (\<exists>pre line. stdout w' =
                     pre @ [Input ''Enter your choice: '' ''1'',
                            Input ''How many rows of data do you wish to print? '' line]
                     \<and> builtin_int env line = None))
            \<or> (\<exists>before name args. stdout w' = before @ [Call name args]
                  \<and> library_raises env before name args = Some e)))
   \<and> (stdin w = ''1'' # rest \<longrightarrow>
        shree_menu env w =
          (case run_analysis env (menu_read shree_display ''1'' rest w) of
             (Inl e, w') \<Rightarrow> Some (Inl e, w') | (Inr u, w') \<Rightarrow> shree_menu env w'))
   \<and> (stdin w = ''2'' # rest \<longrightarrow>
        shree_menu env w =
          (case chart_menu env (menu_read shree_display ''2'' rest w) of
             (Inl e, w') \<Rightarrow> Some (Inl e, w') | (Inr u, w') \<Rightarrow> shree_menu env w'))
   \<and> (stdin w = ''3'' # rest \<longrightarrow>
        shree_menu env w = Some (Inr (), menu_read shree_display ''3'' rest w))
   \<and> (stdin w = c # rest \<and> c \<noteq> ''1'' \<and> c \<noteq> ''2'' \<and> c \<noteq> ''3'' \<longrightarrow>
        shree_menu env w =
          shree_menu env (emit (Print ''Invalid choice. Please try again.'')
                            (menu_read shree_display c rest w)))
   \<and> (stdin w = ''1'' # rest \<longrightarrow>
        analyiz_menu env data w =
          (case analyiz_display_data env data (menu_read main_menu_display ''1'' rest w) of
             (Inl e, w') \<Rightarrow> Some (Inl e, w') | (Inr u, w') \<Rightarrow> analyiz_menu env data w'))
   \<and> (stdin w = ''2'' # rest \<longrightarrow>
        analyiz_menu env data w =
          (case analyiz_choose_algorithm env (menu_read main_menu_display ''2'' rest w) of
             (Inl e, w') \<Rightarrow> Some (Inl e, w') | (Inr u, w') \<Rightarrow> analyiz_menu env data w'))
   \<and> (stdin w = ''3'' # rest \<longrightarrow>
        analyiz_menu env data w =
          (case analyiz_compare_two env (menu_read main_menu_display ''3'' rest w) of
             (Inl e, w') \<Rightarrow> Some (Inl e, w') | (Inr u, w') \<Rightarrow> analyiz_menu env data w'))
   \<and> (stdin w = ''4'' # rest \<longrightarrow>
        analyiz_menu env data w =
          (case call env ''compare_all_algorithms'' []
                  (menu_read main_menu_display ''4'' rest w) of
             (Inl e, w') \<Rightarrow> Some (Inl e, w') | (Inr u, w') \<Rightarrow> analyiz_menu env data w'))
   \<and> (stdin w = ''5'' # rest \<longrightarrow>
        analyiz_menu env data w = Some (Inr (), menu_read main_menu_display ''5'' rest w))
   \<and> (stdin w = c # rest \<and> c \<notin> {''1'', ''2'', ''3'', ''4'', ''5''} \<longrightarrow>
        analyiz_menu env data w =
          analyiz_menu env data (emit (Print ''Invalid choice.'')
                                   (menu_read main_menu_display c rest w)))"
proof (intro conjI)
  show "\<exists>r w'. shree_menu env w = Some (r, w')
      \<and> (\<exists>more. stdout w' = stdout w @ shree_display @ more)
      \<and> (r = Inr () \<longrightarrow> (\<exists>pre. stdout w' = pre @ [Input ''Enter your choice: '' ''3'']))
      \<and> (\<forall>e. r = Inl e \<longrightarrow>
            (e = EOFError \<and> stdin w' = [])
            \<or> (\<exists>before name args. stdout w' = before @ [Call name args]
                  \<and> library_raises env before name args = Some e))"
    using shree_menu_result[of env w] by (simp only: library_raised_iff)
  show "\<exists>r w'. analyiz_menu env data w = Some (r, w')
      \<and> (\<exists>more. stdout w' = stdout w @ main_menu_display @ more)
      \<and> (r = Inr () \<longrightarrow> (\<exists>pre. stdout w' = pre @ [Input ''Enter your choice: '' ''5'']))
      \<and> (\<forall>e. r = Inl e \<longrightarrow>
            (e = EOFError \<and> stdin w' = [])
            \<or> (e = ValueError
               \<and> (\<exists>pre line. stdout w' =
                     pre @ [Input ''Enter your choice: '' ''1'',
                            Input ''How many rows of data do you wish to print? '' line]
                     \<and> builtin_int env line = None))
            \<or> (\<exists>before name args. stdout w' = before @ [Call name args]
                  \<and> library_raises env before name args = Some e))"
    using analyiz_menu_result[of env data w] by (simp only: library_raised_iff)
  show "stdin w = c # rest \<and> c \<noteq> ''1'' \<and> c \<noteq> ''2'' \<and> c \<noteq> ''3'' \<longrightarrow>
        shree_menu env w =
          shree_menu env (emit (Print ''Invalid choice. Please try again.'')
                            (menu_read shree_display c rest w))"
    by (simp add: shree_loop_other)
  show "stdin w = c # rest \<and> c \<notin> {''1'', ''2'', ''3'', ''4'', ''5''} \<longrightarrow>
        analyiz_menu env data w =
          analyiz_menu env data (emit (Print ''Invalid choice.'')
                                   (menu_read main_menu_display c rest w))"
    using analyiz_loop_other[of w c rest env data] by blast
qed (simp_all add: shree_loop_1 shree_loop_2 shree_loop_3 analyiz_loop_1 analyiz_loop_2
       analyiz_loop_3 analyiz_loop_4 analyiz_loop_5)

theorem menu_loop_witness:
  "shree_menu sample_env (console [''7'', ''3'', ''1'']) =
     Some (Inr (),
           \<lparr>stdin = [''1''],
            stdout = shree_display
                     @ [Input ''Enter your choice: '' ''7'',
                        Print ''Invalid choice. Please try again.'']
                     @ shree_display
                     @ [Input ''Enter your choice: '' ''3'']\<rparr>)
   \<and> analyiz_menu sample_env frame10 (console [''7'', ''1'', ''3'', ''5'']) =
     Some (Inr (),
           \<lparr>stdin = [],
            stdout = main_menu_display
                     @ [Input ''Enter your choice: '' ''7'', Print ''Invalid choice.'']
                     @ main_menu_display
                     @ [Input ''Enter your choice: '' ''1'',
                        Input ''How many rows of data do you wish to print? '' ''3'',
                        PrintRows [''row 0'', ''row 1'', ''row 2'']]
                     @ main_menu_display
                     @ [Input ''Enter your choice: '' ''5'']\<rparr>)
   \<and> shree_menu sample_env (console [''2'', ''n'']) =
     Some (Inl EOFError,
           \<lparr>stdin = [],
            stdout = shree_display
                     @ [Input ''Enter your choice: '' ''2'',
                        Input ''Do you want to see the chart for random input? (y/n): '' ''n'',
                        InputEOF ''Do you want to see the chart for sorted input? (y/n): '']\<rparr>)
   \<and> analyiz_menu small_frame_env [''row 0'', ''row 1''] (console [''4'', ''5'']) =
     Some (Inl ValueError,
           \<lparr>stdin = [''5''],
            stdout = main_menu_display
                     @ [Input ''Enter your choice: '' ''4'',
                        Call ''compare_all_algorithms'' []]\<rparr>)"
proof -
  have s1: "shree_menu sample_env
              (emit (Print ''Invalid choice. Please try again.'')
                 (menu_read shree_display ''7'' [''3'', ''1''] (console [''7'', ''3'', ''1'']))) =
     Some (Inr (),
           \<lparr>stdin = [''1''],
            stdout = shree_display
                     @ [Input ''Enter your choice: '' ''7'',
                        Print ''Invalid choice. Please try again.'']
                     @ shree_display
                     @ [Input ''Enter your choice: '' ''3'']\<rparr>)"
    by code_simp
  have a1: "analyiz_menu sample_env frame10
              (emit (Print ''Invalid choice.'')
                 (menu_read main_menu_display ''7'' [''1'', ''3'', ''5'']
                    (console [''7'', ''1'', ''3'', ''5'']))) =
     Some (Inr (),
           \<lparr>stdin = [],
            stdout = main_menu_display
                     @ [Input ''Enter your choice: '' ''7'', Print ''Invalid choice.'']
                     @ main_menu_display
                     @ [Input ''Enter your choice: '' ''1'',
                        Input ''How many rows of data do you wish to print? '' ''3'',
                        PrintRows [''row 0'', ''row 1'', ''row 2'']]
                     @ main_menu_display
                     @ [Input ''Enter your choice: '' ''5'']\<rparr>)"
    by code_simp
  have c1: "chart_menu sample_env (menu_read shree_display ''2'' [''n''] (console [''2'', ''n''])) =
     (Inl EOFError,
           \<lparr>stdin = [],
            stdout = shree_display
                     @ [Input ''Enter your choice: '' ''2'',
                        Input ''Do you want to see the chart for random input? (y/n): '' ''n'',
                        InputEOF ''Do you want to see the chart for sorted input? (y/n): '']\<rparr>)"
    by code_simp
  have k1: "call small_frame_env ''compare_all_algorithms'' []
              (menu_read main_menu_display ''4'' [''5''] (console [''4'', ''5''])) =
     (Inl ValueError,
           \<lparr>stdin = [''5''],
            stdout = main_menu_display
                     @ [Input ''Enter your choice: '' ''4'',
                        Call ''compare_all_algorithms'' []]\<rparr>)"
    by code_simp
  have i1: "stdin (console [''7'', ''3'', ''1'']) = ''7'' # [''3'', ''1'']"
    and i2: "stdin (console [''7'', ''1'', ''3'', ''5'']) = ''7'' # [''1'', ''3'', ''5'']"
    and i3: "stdin (console [''2'', ''n'']) = ''2'' # [''n'']"
    and i4: "stdin (console [''4'', ''5'']) = ''4'' # [''5'']"
    by (simp_all add: console_def)
  from menu_loop_ends_by_exit_or_exception
         [of sample_env "console [''7'', ''3'', ''1'']" frame10 "[''3'', ''1'']" "''7''"]
  have r1: "shree_menu sample_env (console [''7'', ''3'', ''1'']) =
          shree_menu sample_env
              (emit (Print ''Invalid choice. Please try again.'')
                 (menu_read shree_display ''7'' [''3'', ''1''] (console [''7'', ''3'', ''1''])))"
    using i1 by simp
  from menu_loop_ends_by_exit_or_exception
         [of sample_env "console [''7'', ''1'', ''3'', ''5'']" frame10 "[''1'', ''3'', ''5'']" "''7''"]
  have r2: "analyiz_menu sample_env frame10 (console [''7'', ''1'', ''3'', ''5'']) =
          analyiz_menu sample_env frame10
              (emit (Print ''Invalid choice.'')
                 (menu_read main_menu_display ''7'' [''1'', ''3'', ''5'']
                    (console [''7'', ''1'', ''3'', ''5''])))"
    using i2 by simp
  from menu_loop_ends_by_exit_or_exception
         [of sample_env "console [''2'', ''n'']" frame10 "[''n'']" "''2''"]
  have r3: "shree_menu sample_env (console [''2'', ''n'']) =
          (case chart_menu sample_env (menu_read shree_display ''2'' [''n''] (console [''2'', ''n''])) of
             (Inl e, w') \<Rightarrow> Some (Inl e, w') | (Inr u, w') \<Rightarrow> shree_menu sample_env w')"
    using i3 by simp
  from menu_loop_ends_by_exit_or_exception
         [of small_frame_env "console [''4'', ''5'']" "[''row 0'', ''row 1'']" "[''5'']" "''4''"]
  have r4: "analyiz_menu small_frame_env [''row 0'', ''row 1''] (console [''4'', ''5'']) =
          (case call small_frame_env ''compare_all_algorithms'' []
                  (menu_read main_menu_display ''4'' [''5''] (console [''4'', ''5''])) of
             (Inl e, w') \<Rightarrow> Some (Inl e, w')
           | (Inr u, w') \<Rightarrow> analyiz_menu small_frame_env [''row 0'', ''row 1''] w')"
    using i4 by simp
  show ?thesis
    unfolding r1 r2 r3 r4 s1 a1 c1 k1 by simp
qed

theorem menu_loop_counterexample:
  "analyiz_menu sample_env frame10 (console [''9'', ''1'', ''abc'', ''5'']) =
     Some (Inl ValueError,
           \<lparr>stdin = [''5''],
            stdout = main_menu_display
                     @ [Input ''Enter your choice: '' ''9'', Print ''Invalid choice.'']
                     @ main_menu_display
                     @ [Input ''Enter your choice: '' ''1'',
                        Input ''How many rows of data do you wish to print? '' ''abc'']\<rparr>)
   \<and> Input ''Enter your choice: '' ''5''
       \<notin> set (main_menu_display
                @ [Input ''Enter your choice: '' ''9'', Print ''Invalid choice.'']
                @ main_menu_display
                @ [Input ''Enter your choice: '' ''1'',
                   Input ''How many rows of data do you wish to print? '' ''abc''])"
  by code_simp

end
